theory Spec2Isabelle
  imports Complex_Main "HOL-Library.Sublist" "HOL-Library.AList"
begin

section \<open>Python strings\<close>

text \<open>
  A Python \<open>str\<close> is a sequence of Unicode code points, so it is modelled as a list of
  integers; \<open>lit\<close> turns an ASCII literal into such a list. The error message of
  the CRM may carry the quotation marks U+201C and U+201D, which is why the 8-bit
  characters of HOL are not enough.
\<close>

type_synonym str = "int list"

definition lit :: "string \<Rightarrow> str" where
  "lit cs = map of_char cs"

text \<open>
  \<open>str.lower()\<close>. The case table is the one of Unicode for U+0000 to U+00FF, together with
  the only two other code points whose lowercase form contains an ASCII letter (U+0130 and
  U+212A); every other code point is left as it is. All strings the program compares a
  lowercased text with are ASCII.
\<close>

definition lower_cp :: "int \<Rightarrow> str" where
  "lower_cp c =
     (if 65 \<le> c \<and> c \<le> 90 then [c + 32]
      else if 192 \<le> c \<and> c \<le> 222 \<and> c \<noteq> 215 then [c + 32]
      else if c = 304 then [105, 775]
      else if c = 8490 then [107]
      else [c])"

definition lower :: "str \<Rightarrow> str" where
  "lower t = concat (map lower_cp t)"

text \<open>The lowercase form of an ASCII character; every other code point is itself.\<close>

definition ascii_lower :: "int \<Rightarrow> int" where
  "ascii_lower c = (if 65 \<le> c \<and> c \<le> 90 then c + 32 else c)"

definition is_ascii :: "int \<Rightarrow> bool" where
  "is_ascii c = (0 \<le> c \<and> c < 128)"

text \<open>\<open>pat in t\<close> for two strings: \<open>pat\<close> occurs in \<open>t\<close> as a contiguous run.\<close>

fun str_in :: "str \<Rightarrow> str \<Rightarrow> bool" where
  "str_in pat [] = (pat = [])"
| "str_in pat (c # cs) = (prefix pat (c # cs) \<or> str_in pat cs)"

text \<open>The characters \<open>str.strip()\<close> removes: those for which \<open>str.isspace\<close> holds.\<close>

definition isspace :: "int \<Rightarrow> bool" where
  "isspace c = ((9 \<le> c \<and> c \<le> 13) \<or> (28 \<le> c \<and> c \<le> 32) \<or> c = 133 \<or> c = 160
     \<or> c = 5760 \<or> (8192 \<le> c \<and> c \<le> 8202) \<or> c = 8232 \<or> c = 8233 \<or> c = 8239
     \<or> c = 8287 \<or> c = 12288)"

definition strip_by :: "(int \<Rightarrow> bool) \<Rightarrow> str \<Rightarrow> str" where
  "strip_by P t = rev (dropWhile P (rev (dropWhile P t)))"

definition strip :: "str \<Rightarrow> str" where
  "strip t = strip_by isspace t"

definition strip_chars :: "str \<Rightarrow> str \<Rightarrow> str" where
  "strip_chars chars t = strip_by (\<lambda>c. c \<in> set chars) t"

text \<open>
  \<open>t.replace(old, '')\<close>: the occurrences of \<open>old\<close> are deleted from left to right, without
  overlap. (With an empty \<open>old\<close> Python returns \<open>t\<close>.)
\<close>

fun remove_all :: "str \<Rightarrow> str \<Rightarrow> str" where
  "remove_all old [] = []"
| "remove_all old (c # cs) =
     (if old \<noteq> [] \<and> prefix old (c # cs) then remove_all old (drop (length old - 1) cs)
      else c # remove_all old cs)"

section \<open>The language model\<close>

text \<open>
  \<open>Config.GOOGLE_MODEL\<close> and \<open>Config.GOOGLE_FALLBACK_MODEL\<close>.
\<close>

definition GOOGLE_MODEL :: str where
  "GOOGLE_MODEL = lit ''gemini-2.5-flash''"

definition GOOGLE_FALLBACK_MODEL :: str where
  "GOOGLE_FALLBACK_MODEL = lit ''gemini-2.5-flash-lite''"

text \<open>
  The program sends two prompts, each a fixed template around one string:
  \<open>LeadPrompt m\<close> is \<open>SYSTEM_PROMPT\<close> followed by the user message \<open>m\<close>
  (\<open>call_gemini_api\<close>), \<open>WebsitePrompt c\<close> is the website question about the company
  \<open>c\<close> (\<open>_search_company_website\<close>).
\<close>

datatype prompt = LeadPrompt str | WebsitePrompt str

record gen_call =
  model_name :: str
  sent_prompt :: prompt

text \<open>
  One call of \<open>GenerativeModel(...).generate_content(prompt)\<close> followed by the read of
  \<open>response.text\<close> either gives a text (possibly empty) or raises an exception \<open>e\<close>, of
  which the program only reads \<open>str(e)\<close>. The service is outside the program: it is a
  function of the calls made so far and of the present call.
\<close>

datatype gen_outcome = Text str | GenError str

type_synonym llm = "gen_call list \<Rightarrow> gen_call \<Rightarrow> gen_outcome"

text \<open>
  The exceptions that leave the functions of the program: its own two classes, with their
  message, and the built-in ones raised by an operation on a value of the wrong shape.
\<close>

datatype exn =
    GeminiProcessingError str
  | AttioAPIError str
  | AttributeError
  | TypeError
  | ValueError
  | OverflowError

text \<open>
  \<open>str(e)\<close>. It is applied to the exceptions of \<open>call_gemini_api\<close> and of
  \<open>parse_gemini_response\<close> only, which are of class \<open>GeminiProcessingError\<close>; for a
  built-in exception the name of the class stands for its text.
\<close>

fun exn_str :: "exn \<Rightarrow> str" where
  "exn_str (GeminiProcessingError m) = m"
| "exn_str (AttioAPIError m) = m"
| "exn_str AttributeError = lit ''AttributeError''"
| "exn_str TypeError = lit ''TypeError''"
| "exn_str ValueError = lit ''ValueError''"
| "exn_str OverflowError = lit ''OverflowError''"

subsection \<open>\<open>_is_quota_error\<close>\<close>

definition quota_indicators :: "str list" where
  "quota_indicators =
     [lit ''quota'', lit ''rate limit'', lit ''resource exhausted'', lit ''429'',
      lit ''too many requests'', lit ''limit exceeded'']"

definition is_quota_error :: "str \<Rightarrow> bool" where
  "is_quota_error error_text =
     (let error_str = lower error_text
      in list_ex (\<lambda>indicator. str_in indicator error_str) quota_indicators)"

subsection \<open>\<open>call_gemini_api\<close>\<close>

text \<open>
  The body of the \<open>try\<close> block: the text of the response, or the text of the exception
  raised there. An empty text raises inside the \<open>try\<close> block too.
\<close>

definition gemini_attempt :: "gen_outcome \<Rightarrow> str + str" where
  "gemini_attempt r =
     (case r of
        GenError e \<Rightarrow> Inl e
      | Text t \<Rightarrow> if t = [] then Inl (lit ''Empty response from Gemini API'') else Inr t)"

definition both_failed :: "str \<Rightarrow> str \<Rightarrow> str" where
  "both_failed e fallback_error =
     lit ''Both models failed. Primary: '' @ e @ lit '', Fallback: '' @ fallback_error"

definition request_failed :: "str \<Rightarrow> str" where
  "request_failed e = lit ''API request failed: '' @ e"

definition gemini_call :: "bool \<Rightarrow> str \<Rightarrow> gen_call" where
  "gemini_call use_fallback message =
     \<lparr>model_name = (if use_fallback then GOOGLE_FALLBACK_MODEL else GOOGLE_MODEL),
      sent_prompt = LeadPrompt message\<rparr>"

function call_gemini_api ::
  "llm \<Rightarrow> str \<Rightarrow> bool \<Rightarrow> gen_call list \<Rightarrow> (exn + str) \<times> gen_call list" where
  "call_gemini_api M message use_fallback hist =
     (let c = gemini_call use_fallback message;
          hist1 = hist @ [c]
      in case gemini_attempt (M hist c) of
           Inr t \<Rightarrow> (Inr t, hist1)
         | Inl e \<Rightarrow>
             if \<not> use_fallback \<and> is_quota_error e then
               (case call_gemini_api M message True hist1 of
                  (Inr t, hist2) \<Rightarrow> (Inr t, hist2)
                | (Inl fallback_error, hist2) \<Rightarrow>
                    (Inl (GeminiProcessingError (both_failed e (exn_str fallback_error))), hist2))
             else (Inl (GeminiProcessingError (request_failed e)), hist1))"
  by pat_completeness auto
termination
  by (relation "measure (\<lambda>(M, message, use_fallback, hist). if use_fallback then 0 else 1)") auto

declare call_gemini_api.simps [simp del]

section \<open>Decoded JSON\<close>

text \<open>
  The values \<open>json.loads\<close> and \<open>response.json()\<close> produce, which are also the values
  the program stores in its dictionaries and sends as payloads. A Python \<open>dict\<close> keeps its
  keys in insertion order, so it is an association list whose keys are distinct; \<open>d[k] = v\<close>
  is \<open>AList.update k v d\<close>. A finite \<open>float\<close> is represented by the rational it denotes
  (the rounding of a decimal literal to binary64 is not modelled).
\<close>

datatype pyfloat = Finite rat | PosInf | NegInf | NaN

datatype json =
    JNull
  | JBool bool
  | JInt int
  | JFloat pyfloat
  | JStr str
  | JArr "json list"
  | JObj "(str \<times> json) list"

type_synonym pydict = "(str \<times> json) list"

text \<open>\<open>d.get(k)\<close>, with \<open>None\<close> for a missing key, and the truth value of an object.\<close>

definition dict_get :: "pydict \<Rightarrow> str \<Rightarrow> json" where
  "dict_get d k = (case map_of d k of None \<Rightarrow> JNull | Some v \<Rightarrow> v)"

fun truthy :: "json \<Rightarrow> bool" where
  "truthy JNull = False"
| "truthy (JBool b) = b"
| "truthy (JInt i) = (i \<noteq> 0)"
| "truthy (JFloat f) = (f \<noteq> Finite 0)"
| "truthy (JStr t) = (t \<noteq> [])"
| "truthy (JArr xs) = (xs \<noteq> [])"
| "truthy (JObj kvs) = (kvs \<noteq> [])"

subsection \<open>\<open>json.loads\<close>\<close>

text \<open>
  The decoder of the standard library, which is not part of the repository, written after
  its scanner, which reads one value at the head of the text and returns it with
  the rest of the text. The fuel bounds the number of values and of array and object
  entries read, each of which takes at least one character, so \<open>json_loads\<close> gives one
  more than the length of the text. The recursion limit of the interpreter is not modelled.
\<close>

definition is_ws :: "int \<Rightarrow> bool" where
  "is_ws c = (c = 32 \<or> c = 9 \<or> c = 10 \<or> c = 13)"

definition skip_ws :: "str \<Rightarrow> str" where
  "skip_ws t = dropWhile is_ws t"

definition is_digit :: "int \<Rightarrow> bool" where
  "is_digit c = (48 \<le> c \<and> c \<le> 57)"

definition digits_val :: "str \<Rightarrow> nat" where
  "digits_val ds = foldl (\<lambda>n d. 10 * n + nat (d - 48)) 0 ds"

definition hex_val :: "int \<Rightarrow> int option" where
  "hex_val c =
     (if 48 \<le> c \<and> c \<le> 57 then Some (c - 48)
      else if 97 \<le> c \<and> c \<le> 102 then Some (c - 87)
      else if 65 \<le> c \<and> c \<le> 70 then Some (c - 55)
      else None)"

text \<open>The four hexadecimal digits of a \<open>\uXXXX\<close> escape.\<close>

definition decode_u :: "str \<Rightarrow> (int \<times> str) option" where
  "decode_u t =
     (case t of
        a # b # c # d # rest \<Rightarrow>
          (case (hex_val a, hex_val b, hex_val c, hex_val d) of
             (Some x, Some y, Some z, Some w) \<Rightarrow> Some (((x * 16 + y) * 16 + z) * 16 + w, rest)
           | _ \<Rightarrow> None)
      | _ \<Rightarrow> None)"

definition backslash :: "int \<Rightarrow> int option" where
  "backslash e =
     (if e = 34 \<or> e = 92 \<or> e = 47 then Some e
      else if e = 98 then Some 8
      else if e = 102 then Some 12
      else if e = 110 then Some 10
      else if e = 114 then Some 13
      else if e = 116 then Some 9
      else None)"

text \<open>
  \<open>scanstring\<close>, in strict mode, from the character after the opening quote: the
  characters read so far, then the rest of the text. A high surrogate followed by the
  escape of a low surrogate is joined with it into one code point.
\<close>

function scanstring :: "str \<Rightarrow> str \<Rightarrow> (str \<times> str) option" where
  "scanstring acc [] = None"
| "scanstring acc (c # cs) =
     (if c = 34 then Some (acc, cs)
      else if c = 92 then
        (case cs of
           [] \<Rightarrow> None
         | e # es \<Rightarrow>
             if e = 117 then
               (case decode_u es of
                  None \<Rightarrow> None
                | Some (u, rest) \<Rightarrow>
                    (case (if 55296 \<le> u \<and> u \<le> 56319 \<and> take 2 rest = [92, 117]
                           then decode_u (drop 2 rest) else None) of
                       Some (u2, rest2) \<Rightarrow>
                         if 56320 \<le> u2 \<and> u2 \<le> 57343
                         then scanstring
                                (acc @ [65536 + (u - 55296) * 1024 + (u2 - 56320)])
                                (drop 10 es)
                         else scanstring (acc @ [u]) (drop 4 es)
                     | None \<Rightarrow> scanstring (acc @ [u]) (drop 4 es)))
             else
               (case backslash e of
                  None \<Rightarrow> None
                | Some x \<Rightarrow> scanstring (acc @ [x]) es))
      else if c < 32 then None
      else scanstring (acc @ [c]) cs)"
  by pat_completeness auto
termination
  by (relation "measure (\<lambda>(acc, t). length t)") auto

text \<open>
  \<open>NUMBER_RE\<close>: the integer part, then a fraction and an exponent when they are complete.
  Without both the number is an \<open>int\<close>, otherwise a \<open>float\<close>.
\<close>

definition match_number :: "str \<Rightarrow> (json \<times> str) option" where
  "match_number t =
     (let negative = (take 1 t = [45]);
          t1 = (if negative then drop 1 t else t)
      in case t1 of
           [] \<Rightarrow> None
         | d # ds \<Rightarrow>
             if \<not> is_digit d then None
             else
               (let ipart = (if d = 48 then [d] else d # takeWhile is_digit ds);
                    r1 = drop (length ipart) t1;
                    fdigits = (if take 1 r1 = [46] then takeWhile is_digit (drop 1 r1) else []);
                    r2 = (if fdigits = [] then r1 else drop (1 + length fdigits) r1);
                    has_e = (take 1 r2 = [101] \<or> take 1 r2 = [69]);
                    r2e = drop 1 r2;
                    esign = (take 1 r2e = [45] \<or> take 1 r2e = [43]);
                    r2s = (if esign then drop 1 r2e else r2e);
                    edigits = (if has_e then takeWhile is_digit r2s else []);
                    r3 = (if edigits = [] then r2 else drop (length edigits) r2s);
                    sgn = (if negative then - 1 else 1)
                in if fdigits = [] \<and> edigits = []
                   then Some (JInt (sgn * int (digits_val ipart)), r3)
                   else
                     (let mant = of_nat (digits_val ipart)
                                 + of_nat (digits_val fdigits) / 10 ^ length fdigits;
                          scale = (if take 1 r2e = [45]
                                   then 1 / 10 ^ digits_val edigits
                                   else 10 ^ digits_val edigits)
                      in Some (JFloat (Finite (of_int sgn * mant * scale)), r3))))"

fun dict_of_pairs :: "pydict \<Rightarrow> (str \<times> json) list \<Rightarrow> pydict" where
  "dict_of_pairs d [] = d"
| "dict_of_pairs d ((k, v) # kvs) = dict_of_pairs (AList.update k v d) kvs"

text \<open>The values that contain no other value: strings, the three literals and numbers.\<close>

definition scan_atom :: "str \<Rightarrow> (json \<times> str) option" where
  "scan_atom t =
     (case t of
        [] \<Rightarrow> None
      | c # cs \<Rightarrow>
          if c = 34 then
            (case scanstring [] cs of None \<Rightarrow> None | Some (s, r) \<Rightarrow> Some (JStr s, r))
          else if c = 110 \<and> take 4 t = lit ''null'' then Some (JNull, drop 4 t)
          else if c = 116 \<and> take 4 t = lit ''true'' then Some (JBool True, drop 4 t)
          else if c = 102 \<and> take 5 t = lit ''false'' then Some (JBool False, drop 5 t)
          else
            (case match_number t of
               Some r \<Rightarrow> Some r
             | None \<Rightarrow>
                 if c = 78 \<and> take 3 t = lit ''NaN'' then Some (JFloat NaN, drop 3 t)
                 else if c = 73 \<and> take 8 t = lit ''Infinity''
                 then Some (JFloat PosInf, drop 8 t)
                 else if c = 45 \<and> take 9 t = lit ''-Infinity''
                 then Some (JFloat NegInf, drop 9 t)
                 else None))"

text \<open>
  What follows an opening brace: the end of an empty object, or the quote that opens the
  first key (\<open>Some\<close> of the text after that quote).
\<close>

datatype object_start = EmptyObject str | FirstKey str | BadObject

definition after_brace :: "str \<Rightarrow> object_start" where
  "after_brace cs =
     (case (if take 1 cs = [34] then cs else skip_ws cs) of
        [] \<Rightarrow> BadObject
      | d # ds \<Rightarrow>
          if d = 34 then FirstKey ds
          else if d = 125 then EmptyObject ds
          else BadObject)"

text \<open>What follows a value in an array or an object: the closing character or a comma.\<close>

datatype separator = Closing str | Comma str | BadSeparator

definition after_value :: "int \<Rightarrow> str \<Rightarrow> separator" where
  "after_value closing r =
     (case skip_ws r of
        [] \<Rightarrow> BadSeparator
      | d # ds \<Rightarrow>
          if d = closing then Closing ds
          else if d = 44 then Comma ds
          else BadSeparator)"

text \<open>The key of an object entry and its colon, from the character after the quote.\<close>

definition scan_key :: "str \<Rightarrow> (str \<times> str) option" where
  "scan_key t =
     (case scanstring [] t of
        None \<Rightarrow> None
      | Some (k, r) \<Rightarrow>
          (case skip_ws r of
             [] \<Rightarrow> None
           | colon # r1 \<Rightarrow> if colon = 58 then Some (k, skip_ws r1) else None))"

definition next_key :: "str \<Rightarrow> str option" where
  "next_key ds = (case skip_ws ds of [] \<Rightarrow> None | q # qs \<Rightarrow> if q = 34 then Some qs else None)"

text \<open>
  The scanner proper. \<open>scan n Value\<close> is \<open>scan_once\<close>; \<open>scan n (ArrayItems vals)\<close> is the
  loop of \<open>JSONArray\<close>, at the start of a value, with the values read so far;
  \<open>scan n (ObjectItems pairs)\<close> is the loop of \<open>JSONObject\<close>, after the quote that opens a
  key, with the entries read so far.
\<close>

datatype scan_task = Value | ArrayItems "json list" | ObjectItems "(str \<times> json) list"

fun scan :: "nat \<Rightarrow> scan_task \<Rightarrow> str \<Rightarrow> (json \<times> str) option" where
  "scan 0 task t = None"
| "scan (Suc n) Value t =
     (if take 1 t = [123] then
        (case after_brace (drop 1 t) of
           FirstKey ds \<Rightarrow> scan n (ObjectItems []) ds
         | EmptyObject ds \<Rightarrow> Some (JObj [], ds)
         | BadObject \<Rightarrow> None)
      else if take 1 t = [91] then
        (if take 1 (skip_ws (drop 1 t)) = [93]
         then Some (JArr [], drop 1 (skip_ws (drop 1 t)))
         else scan n (ArrayItems []) (skip_ws (drop 1 t)))
      else scan_atom t)"
| "scan (Suc n) (ArrayItems vals) t =
     (case scan n Value t of
        None \<Rightarrow> None
      | Some (v, r) \<Rightarrow>
          (case after_value 93 r of
             Closing ds \<Rightarrow> Some (JArr (vals @ [v]), ds)
           | Comma ds \<Rightarrow> scan n (ArrayItems (vals @ [v])) (skip_ws ds)
           | BadSeparator \<Rightarrow> None))"
| "scan (Suc n) (ObjectItems pairs) t =
     (case scan_key t of
        None \<Rightarrow> None
      | Some (k, r1) \<Rightarrow>
          (case scan n Value r1 of
             None \<Rightarrow> None
           | Some (v, r2) \<Rightarrow>
               (case after_value 125 r2 of
                  Closing ds \<Rightarrow> Some (JObj (dict_of_pairs [] (pairs @ [(k, v)])), ds)
                | Comma ds \<Rightarrow>
                    (case next_key ds of
                       None \<Rightarrow> None
                     | Some qs \<Rightarrow> scan n (ObjectItems (pairs @ [(k, v)])) qs)
                | BadSeparator \<Rightarrow> None)))"

definition json_loads :: "str \<Rightarrow> json option" where
  "json_loads t =
     (case scan (Suc (length t)) Value (skip_ws t) of
        None \<Rightarrow> None
      | Some (v, r) \<Rightarrow> if skip_ws r = [] then Some v else None)"

section \<open>The extraction engine\<close>

subsection \<open>\<open>parse_gemini_response\<close>\<close>

text \<open>
  \<open>re.search(r'\{.*\}', response_text, re.DOTALL)\<close>: the leftmost match starts at the first
  opening brace that has a closing brace after it, which is the first opening brace of the
  text or none; the star is greedy and the dot matches every character, so the match ends
  at the last closing brace.
\<close>

definition json_match :: "str \<Rightarrow> str option" where
  "json_match response_text =
     (let from_brace = dropWhile (\<lambda>c. c \<noteq> 123) response_text
      in if 125 \<in> set from_brace
         then Some (rev (dropWhile (\<lambda>c. c \<noteq> 125) (rev from_brace)))
         else None)"

definition unparseable :: exn where
  "unparseable = GeminiProcessingError (lit ''Could not parse JSON from Gemini response'')"

definition parse_gemini_response :: "str \<Rightarrow> exn + json" where
  "parse_gemini_response response_text =
     (case json_loads response_text of
        Some data \<Rightarrow> Inr data
      | None \<Rightarrow>
          (case json_match response_text of
             Some m \<Rightarrow>
               (case json_loads m of
                  Some data \<Rightarrow> Inr data
                | None \<Rightarrow> Inl unparseable)
           | None \<Rightarrow> Inl unparseable))"

subsection \<open>\<open>LeadData\<close>\<close>

record LeadData =
  object_type :: str
  name :: str
  email :: "str option"
  phone :: "str option"
  company :: "str option"
  job_title :: "str option"
  location :: "str option"
  linkedin_url :: "str option"
  deal_value :: "pyfloat option"
  deal_stage :: "str option"
  "notes" :: "str option"

text \<open>
  What the program takes from its libraries without fixing it: the validators of pydantic
  for a field annotated \<open>str\<close> and for one annotated \<open>float\<close> (which values they convert
  depends on the version of the library), the text of a \<open>ValidationError\<close> for a list of
  offending fields, the text of the \<open>TypeError\<close> raised by \<open>LeadData(**data)\<close> when
  \<open>data\<close> is not a mapping, \<open>str()\<close> of a decoded value that is not a string, and
  \<open>str.lower()\<close> on a text that is not all ASCII (the case mapping of the Unicode
  database, which depends on the neighbours of a character).
\<close>

record library =
  str_field :: "json \<Rightarrow> str option"
  float_field :: "json \<Rightarrow> pyfloat option"
  validation_text :: "str list \<Rightarrow> str"
  mapping_error_text :: "json \<Rightarrow> str"
  py_str :: "json \<Rightarrow> str"
  unicode_lower :: "str \<Rightarrow> str"

text \<open>
  The validation of one field. A field declared with \<open>Field(...)\<close> is required; one
  declared \<open>Optional\<close> with \<open>Field(None)\<close> may be missing or \<open>None\<close>. The result is
  the value, or \<open>None\<close> when the field is invalid.
\<close>

definition required_field :: "(json \<Rightarrow> 'a option) \<Rightarrow> pydict \<Rightarrow> str \<Rightarrow> 'a option" where
  "required_field validator data k =
     (case map_of data k of None \<Rightarrow> None | Some v \<Rightarrow> validator v)"

definition optional_field ::
  "(json \<Rightarrow> 'a option) \<Rightarrow> pydict \<Rightarrow> str \<Rightarrow> 'a option option" where
  "optional_field validator data k =
     (case map_of data k of
        None \<Rightarrow> Some None
      | Some JNull \<Rightarrow> Some None
      | Some v \<Rightarrow> (case validator v of None \<Rightarrow> None | Some x \<Rightarrow> Some (Some x)))"

definition str_fields :: "str list" where
  "str_fields = [lit ''email'', lit ''phone'', lit ''company'', lit ''job_title'',
                 lit ''location'', lit ''linkedin_url'', lit ''deal_stage'', lit ''notes'']"

text \<open>
  \<open>LeadData(**data)\<close> for a dictionary \<open>data\<close>: the record, or the names of the fields
  that are invalid (a \<open>ValidationError\<close>). Keys that are not fields are ignored.
\<close>

definition invalid_fields :: "library \<Rightarrow> pydict \<Rightarrow> str list" where
  "invalid_fields L data =
     filter (\<lambda>k. required_field (str_field L) data k = None) [lit ''object_type'', lit ''name'']
     @ filter (\<lambda>k. optional_field (str_field L) data k = None)
         [lit ''email'', lit ''phone'', lit ''company'', lit ''job_title'', lit ''location'',
          lit ''linkedin_url'']
     @ filter (\<lambda>k. optional_field (float_field L) data k = None) [lit ''deal_value'']
     @ filter (\<lambda>k. optional_field (str_field L) data k = None)
         [lit ''deal_stage'', lit ''notes'']"

definition LeadData_validate :: "library \<Rightarrow> pydict \<Rightarrow> str list + LeadData" where
  "LeadData_validate L data =
     (if invalid_fields L data \<noteq> [] then Inl (invalid_fields L data)
      else Inr
        \<lparr>object_type = the (required_field (str_field L) data (lit ''object_type'')),
         name = the (required_field (str_field L) data (lit ''name'')),
         email = the (optional_field (str_field L) data (lit ''email'')),
         phone = the (optional_field (str_field L) data (lit ''phone'')),
         company = the (optional_field (str_field L) data (lit ''company'')),
         job_title = the (optional_field (str_field L) data (lit ''job_title'')),
         location = the (optional_field (str_field L) data (lit ''location'')),
         linkedin_url = the (optional_field (str_field L) data (lit ''linkedin_url'')),
         deal_value = the (optional_field (float_field L) data (lit ''deal_value'')),
         deal_stage = the (optional_field (str_field L) data (lit ''deal_stage'')),
         notes = the (optional_field (str_field L) data (lit ''notes''))\<rparr>)"

subsection \<open>\<open>process_lead_message\<close>\<close>

text \<open>
  Every exception raised in the body, the \<open>GeminiProcessingError\<close> of the two calls
  included, is caught by \<open>except Exception\<close> and raised again with the prefix
  \<open>Processing failed\<close>; a \<open>ValidationError\<close> gets the prefix \<open>Invalid lead data format\<close>.
\<close>

definition processing_failed :: "str \<Rightarrow> exn" where
  "processing_failed e = GeminiProcessingError (lit ''Processing failed: '' @ e)"

definition invalid_format :: "str \<Rightarrow> exn" where
  "invalid_format e = GeminiProcessingError (lit ''Invalid lead data format: '' @ e)"

definition process_lead_message ::
  "library \<Rightarrow> llm \<Rightarrow> str \<Rightarrow> gen_call list \<Rightarrow> (exn + LeadData) \<times> gen_call list" where
  "process_lead_message L M message hist =
     (case call_gemini_api M message False hist of
        (Inl e, hist1) \<Rightarrow> (Inl (processing_failed (exn_str e)), hist1)
      | (Inr response_text, hist1) \<Rightarrow>
          (case parse_gemini_response response_text of
             Inl e \<Rightarrow> (Inl (processing_failed (exn_str e)), hist1)
           | Inr (JObj data) \<Rightarrow>
               (case LeadData_validate L data of
                  Inl bad \<Rightarrow> (Inl (invalid_format (validation_text L bad)), hist1)
                | Inr lead_data \<Rightarrow> (Inr lead_data, hist1))
           | Inr other \<Rightarrow> (Inl (processing_failed (mapping_error_text L other)), hist1)))"

text \<open>
  Validators for the witnesses: a string is valid for \<open>str\<close>, an \<open>int\<close> or a \<open>float\<close>
  for \<open>float\<close>, and nothing is converted. The texts of the witnesses are ASCII, so they
  never reach \<open>unicode_lower\<close>.
\<close>

definition plain_library :: library where
  "plain_library =
     \<lparr>str_field = (\<lambda>v. case v of JStr t \<Rightarrow> Some t | _ \<Rightarrow> None),
      float_field = (\<lambda>v. case v of JInt i \<Rightarrow> Some (Finite (of_int i))
                                   | JFloat f \<Rightarrow> Some f | _ \<Rightarrow> None),
      validation_text = (\<lambda>bad. concat (map (\<lambda>k. k @ lit '': invalid; '') bad)),
      mapping_error_text = (\<lambda>v. lit ''argument after ** must be a mapping''),
      py_str = (\<lambda>v. lit ''<object>''),
      unicode_lower = (\<lambda>t. t)\<rparr>"

text \<open>
  A response of the model for the witnesses: the JSON object with \<open>object_type\<close>
  \<open>robot\<close> and \<open>name\<close> \<open>R2\<close>.
\<close>

definition robot_response :: str where
  "robot_response =
     lit ''{'' @ [34] @ lit ''object_type'' @ [34] @ lit '': '' @ [34] @ lit ''robot'' @ [34]
     @ lit '', '' @ [34] @ lit ''name'' @ [34] @ lit '': '' @ [34] @ lit ''R2'' @ [34] @ lit ''}''"

definition robot_lead :: LeadData where
  "robot_lead =
     \<lparr>object_type = lit ''robot'', name = lit ''R2'', email = None, phone = None,
      company = None, job_title = None, location = None, linkedin_url = None,
      deal_value = None, deal_stage = None, notes = None\<rparr>"

subsection \<open>\<open>AttioClient._search_company_website\<close>\<close>

text \<open>
  \<open>AttioClient._is_quota_error\<close> is a copy of \<open>_is_quota_error\<close>, line by line; the
  definition \<open>is_quota_error\<close> stands for both.
\<close>

text \<open>
  \<open>str.lower()\<close> as the lookup uses it, on a text it returns: the ASCII letters are
  lowered on an ASCII text, and the library decides on any other text.
\<close>

definition str_lower :: "library \<Rightarrow> str \<Rightarrow> str" where
  "str_lower L t = (if list_all is_ascii t then map ascii_lower t else unicode_lower L t)"

definition clean_website :: "library \<Rightarrow> str \<Rightarrow> str" where
  "clean_website L text =
     (let website = str_lower L (strip text);
          website = remove_all (lit ''http://'') (remove_all (lit ''https://'') website);
          website = remove_all (lit ''www.'') website
      in strip_chars (lit ''/'') website)"

definition website_of_text :: "library \<Rightarrow> str \<Rightarrow> str option" where
  "website_of_text L text =
     (if text \<noteq> [] then
        (let website = clean_website L text
         in if website \<noteq> lit ''none'' \<and> str_in (lit ''.'') website
                \<and> \<not> str_in (lit '' '') website
            then Some website else None)
      else None)"

definition website_call :: "bool \<Rightarrow> str \<Rightarrow> gen_call" where
  "website_call use_fallback company_name =
     \<lparr>model_name = (if use_fallback then GOOGLE_FALLBACK_MODEL else GOOGLE_MODEL),
      sent_prompt = WebsitePrompt company_name\<rparr>"

function search_company_website ::
  "library \<Rightarrow> llm \<Rightarrow> str \<Rightarrow> bool \<Rightarrow> gen_call list \<Rightarrow> str option \<times> gen_call list"
where
  "search_company_website L M company_name use_fallback hist =
     (let c = website_call use_fallback company_name;
          hist1 = hist @ [c]
      in case M hist c of
           Text t \<Rightarrow> (website_of_text L t, hist1)
         | GenError e \<Rightarrow>
             if \<not> use_fallback \<and> is_quota_error e
             then search_company_website L M company_name True hist1
             else (None, hist1))"
  by pat_completeness auto
termination
  by (relation
        "measure (\<lambda>(L, M, company_name, use_fallback, hist). if use_fallback then 0 else 1)")
    auto

declare search_company_website.simps [simp del]

text \<open>
  The domain lookup as the specification words it: the text is trimmed and lowercased,
  the prefixes \<open>https://\<close>, \<open>http://\<close> and \<open>www.\<close> and the trailing slashes are taken
  off, and the result is returned only if it is not \<open>none\<close>, has a dot and has no
  whitespace.
\<close>

definition strip_prefix :: "str \<Rightarrow> str \<Rightarrow> str" where
  "strip_prefix p t = (if prefix p t then drop (length p) t else t)"

definition spec_clean :: "library \<Rightarrow> str \<Rightarrow> str" where
  "spec_clean L text =
     rev (dropWhile (\<lambda>c. c = 47) (rev
       (strip_prefix (lit ''www.'') (strip_prefix (lit ''http://'')
          (strip_prefix (lit ''https://'') (str_lower L (strip text)))))))"

definition spec_resolve_domain :: "library \<Rightarrow> str \<Rightarrow> str option" where
  "spec_resolve_domain L text =
     (let website = spec_clean L text
      in if website \<noteq> lit ''none'' \<and> 46 \<in> set website \<and> \<not> list_ex isspace website
         then Some website else None)"

section \<open>The CRM client\<close>

subsection \<open>Requests\<close>

text \<open>
  Every request of \<open>create_record\<close> and its helpers is a POST with a JSON body.
  \<open>requests.post\<close> followed by \<open>raise_for_status()\<close> and, where the program reads it,
  \<open>response.json()\<close> has one of three outcomes: the decoded body of a response that is not
  an error; an \<open>HTTPError\<close> \<open>e\<close> with its status code, with \<open>e.response.json()\<close> (or
  \<open>None\<close> when the body does not decode) and with \<open>str(e)\<close>; or a
  \<open>RequestException\<close> that has no response (a timeout, a refused connection), with
  \<open>str(e)\<close>. A response that is not an error and whose body does not decode is outside
  the model. The CRM is a function of the requests made so far and of the present one.
\<close>

record request =
  endpoint :: str
  payload :: json

datatype http_outcome =
    Created json
  | HttpError nat "json option" str
  | NoResponse str

fun failed :: "http_outcome \<Rightarrow> bool" where
  "failed (Created r) = False"
| "failed (HttpError status_code error_data e) = True"
| "failed (NoResponse e) = True"

type_synonym crm = "request list \<Rightarrow> request \<Rightarrow> http_outcome"

record trace =
  gen_calls :: "gen_call list"
  http_calls :: "request list"

definition ATTIO_API_URL :: str where
  "ATTIO_API_URL = lit ''https://api.attio.com/v2''"

definition records_endpoint :: "str \<Rightarrow> str" where
  "records_endpoint object_slug = ATTIO_API_URL @ lit ''/objects/'' @ object_slug @ lit ''/records''"

definition attributes_endpoint :: "str \<Rightarrow> str" where
  "attributes_endpoint object_slug =
     ATTIO_API_URL @ lit ''/objects/'' @ object_slug @ lit ''/attributes''"

subsection \<open>Formatting\<close>

text \<open>
  The string of a value of \<open>data\<close> that is known to be a string (the values come from the
  \<open>str\<close> fields of \<open>LeadData\<close> and are read after a test for truth), and the text an
  f-string gives for any decoded value.
\<close>

fun str_of :: "json \<Rightarrow> str" where
  "str_of (JStr t) = t"
| "str_of v = []"

definition format_val :: "library \<Rightarrow> json \<Rightarrow> str" where
  "format_val L v = (case v of JStr t \<Rightarrow> t | _ \<Rightarrow> py_str L v)"

fun decimal :: "nat \<Rightarrow> str" where
  "decimal n = (if n < 10 then [48 + int n] else decimal (n div 10) @ [48 + int (n mod 10)])"

definition join_lines :: "str list \<Rightarrow> str" where
  "join_lines parts = (case parts of [] \<Rightarrow> [] | p # ps \<Rightarrow> p @ concat (map (\<lambda>x. 10 # x) ps))"

text \<open>
  \<open>str.title()\<close> and \<open>str.capitalize()\<close>, with the case table of ASCII: the object kinds
  and the attribute slugs of the CRM are ASCII identifiers; other code points are left as
  they are and do not count as letters.
\<close>

definition is_cased :: "int \<Rightarrow> bool" where
  "is_cased c = ((65 \<le> c \<and> c \<le> 90) \<or> (97 \<le> c \<and> c \<le> 122))"

definition ascii_upper :: "int \<Rightarrow> int" where
  "ascii_upper c = (if 97 \<le> c \<and> c \<le> 122 then c - 32 else c)"

fun title_from :: "bool \<Rightarrow> str \<Rightarrow> str" where
  "title_from previous_is_cased [] = []"
| "title_from previous_is_cased (c # cs) =
     (if previous_is_cased then ascii_lower c else ascii_upper c) # title_from (is_cased c) cs"

definition title :: "str \<Rightarrow> str" where
  "title t = title_from False t"

definition capitalize :: "str \<Rightarrow> str" where
  "capitalize t = (case t of [] \<Rightarrow> [] | c # cs \<Rightarrow> ascii_upper c # map ascii_lower cs)"

definition replace_char :: "int \<Rightarrow> int \<Rightarrow> str \<Rightarrow> str" where
  "replace_char old new t = map (\<lambda>c. if c = old then new else c) t"

text \<open>\<open>t.split(sep)\<close> for a separator of one character.\<close>

fun split_on :: "int \<Rightarrow> str \<Rightarrow> str list" where
  "split_on sep [] = [[]]"
| "split_on sep (c # cs) =
     (if c = sep then [] # split_on sep cs
      else (case split_on sep cs of [] \<Rightarrow> [[c]] | p # ps \<Rightarrow> (c # p) # ps))"

text \<open>
  \<open>int(v)\<close>: a \<open>float\<close> is truncated towards zero; a string is read as a decimal
  literal of ASCII digits with an optional sign.
\<close>

definition py_int :: "json \<Rightarrow> exn + int" where
  "py_int v =
     (case v of
        JInt i \<Rightarrow> Inr i
      | JBool b \<Rightarrow> Inr (if b then 1 else 0)
      | JFloat (Finite r) \<Rightarrow> Inr (if 0 \<le> r then \<lfloor>r\<rfloor> else \<lceil>r\<rceil>)
      | JFloat NaN \<Rightarrow> Inl ValueError
      | JFloat _ \<Rightarrow> Inl OverflowError
      | JStr t \<Rightarrow>
          (let u = strip t;
               negative = (take 1 u = [45]);
               ds = (if negative \<or> take 1 u = [43] then drop 1 u else u)
           in if ds \<noteq> [] \<and> list_all is_digit ds
              then Inr ((if negative then - 1 else 1) * int (digits_val ds))
              else Inl ValueError)
      | _ \<Rightarrow> Inl TypeError)"

subsection \<open>\<open>_create_attribute\<close>\<close>

definition attribute_config :: "(str \<times> pydict) list" where
  "attribute_config =
     [(lit ''linkedin_url'',
        [(lit ''title'', JStr (lit ''LinkedIn URL'')), (lit ''type'', JStr (lit ''text'')),
         (lit ''is_multiselect'', JBool False)]),
      (lit ''job_title'',
        [(lit ''title'', JStr (lit ''Job Title'')), (lit ''type'', JStr (lit ''text'')),
         (lit ''is_multiselect'', JBool False)]),
      (lit ''location'',
        [(lit ''title'', JStr (lit ''Location'')), (lit ''type'', JStr (lit ''text'')),
         (lit ''is_multiselect'', JBool False)]),
      (lit ''description'',
        [(lit ''title'', JStr (lit ''Description'')), (lit ''type'', JStr (lit ''text'')),
         (lit ''is_multiselect'', JBool False)]),
      (lit ''companies'',
        [(lit ''title'', JStr (lit ''Companies'')), (lit ''type'', JStr (lit ''reference'')),
         (lit ''is_multiselect'', JBool True),
         (lit ''reference_object'', JStr (lit ''companies''))])]"

definition attribute_config_of :: "str \<Rightarrow> pydict" where
  "attribute_config_of attribute_slug =
     (case map_of attribute_config attribute_slug of
        Some config \<Rightarrow> config
      | None \<Rightarrow>
          [(lit ''title'', JStr (title (replace_char 95 32 attribute_slug))),
           (lit ''type'', JStr (lit ''text'')),
           (lit ''is_multiselect'', JBool False)])"

definition attribute_payload :: "str \<Rightarrow> json" where
  "attribute_payload attribute_slug =
     (let config = attribute_config_of attribute_slug;
          attribute_data =
            [(lit ''title'', dict_get config (lit ''title'')),
             (lit ''api_slug'', JStr attribute_slug),
             (lit ''description'',
                JStr (lit ''Auto-created attribute for '' @ str_of (dict_get config (lit ''title'')))),
             (lit ''type'', dict_get config (lit ''type'')),
             (lit ''is_multiselect'', dict_get config (lit ''is_multiselect'')),
             (lit ''is_required'', JBool False),
             (lit ''is_unique'', JBool False)];
          attribute_data =
            (if dict_get config (lit ''type'') = JStr (lit ''reference'')
                \<and> map_of config (lit ''reference_object'') \<noteq> None
             then AList.update (lit ''config'')
                    (JObj [(lit ''reference'',
                       JObj [(lit ''target_object'', dict_get config (lit ''reference_object''))])])
                    attribute_data
             else AList.update (lit ''config'') (JObj []) attribute_data)
      in JObj [(lit ''data'', JObj attribute_data)])"

definition attribute_request :: "str \<Rightarrow> str \<Rightarrow> request" where
  "attribute_request object_slug attribute_slug =
     \<lparr>endpoint = attributes_endpoint object_slug, payload = attribute_payload attribute_slug\<rparr>"

definition create_attribute ::
  "library \<Rightarrow> crm \<Rightarrow> str \<Rightarrow> str \<Rightarrow> request list \<Rightarrow> (exn + unit) \<times> request list" where
  "create_attribute L C object_slug attribute_slug hist =
     (let req = attribute_request object_slug attribute_slug;
          hist1 = hist @ [req]
      in case C hist req of
           Created r \<Rightarrow> (Inr (), hist1)
         | HttpError status_code (Some error_data) e \<Rightarrow>
             (Inl (AttioAPIError (lit ''Attribute creation failed: '' @ decimal status_code
                     @ lit '': '' @ format_val L error_data)), hist1)
         | HttpError status_code None e \<Rightarrow>
             (Inl (AttioAPIError (lit ''Attribute creation failed: '' @ e)), hist1)
         | NoResponse e \<Rightarrow>
             (Inl (AttioAPIError (lit ''Attribute creation failed: '' @ e)), hist1))"

subsection \<open>\<open>_lead_data_to_dict\<close> and the payloads\<close>

definition opt_str :: "str option \<Rightarrow> json" where
  "opt_str x = (case x of None \<Rightarrow> JNull | Some t \<Rightarrow> JStr t)"

definition lead_data_to_dict :: "LeadData \<Rightarrow> pydict" where
  "lead_data_to_dict lead_data =
     [(lit ''name'', JStr (name lead_data)),
      (lit ''email'', opt_str (email lead_data)),
      (lit ''phone'', opt_str (phone lead_data)),
      (lit ''company'', opt_str (company lead_data)),
      (lit ''job_title'', opt_str (job_title lead_data)),
      (lit ''location'', opt_str (location lead_data)),
      (lit ''linkedin_url'', opt_str (linkedin_url lead_data)),
      (lit ''notes'', opt_str (notes lead_data))]"

text \<open>\<open>if data.get(k): attributes[k'] = v\<close>.\<close>

definition set_if :: "pydict \<Rightarrow> str \<Rightarrow> str \<Rightarrow> json \<Rightarrow> pydict \<Rightarrow> pydict" where
  "set_if data k k' v attributes =
     (if truthy (dict_get data k) then AList.update k' v attributes else attributes)"

definition wrap_values :: "pydict \<Rightarrow> json" where
  "wrap_values attributes = JObj [(lit ''data'', JObj [(lit ''values'', JObj attributes)])]"

text \<open>The attributes of a payload: what stands under \<open>data\<close> and \<open>values\<close>.\<close>

fun entries :: "json \<Rightarrow> pydict" where
  "entries (JObj d) = d"
| "entries v = []"

definition values_of :: "json \<Rightarrow> pydict" where
  "values_of p = entries (dict_get (entries (dict_get (entries p) (lit ''data''))) (lit ''values''))"

definition build_person_payload :: "pydict \<Rightarrow> json" where
  "build_person_payload data =
     (let attributes = [(lit ''name'', dict_get data (lit ''name''))];
          attributes = set_if data (lit ''email'') (lit ''email_addresses'')
            (JArr [JObj [(lit ''email_address'', dict_get data (lit ''email''))]]) attributes;
          attributes = set_if data (lit ''phone'') (lit ''phone_numbers'')
            (JArr [JObj [(lit ''original_phone_number'', dict_get data (lit ''phone''))]])
            attributes;
          attributes = set_if data (lit ''job_title'') (lit ''job_title'')
            (dict_get data (lit ''job_title'')) attributes;
          attributes = set_if data (lit ''location'') (lit ''location'')
            (dict_get data (lit ''location'')) attributes;
          attributes = set_if data (lit ''linkedin_url'') (lit ''linkedin_url'')
            (dict_get data (lit ''linkedin_url'')) attributes;
          attributes =
            (if truthy (dict_get data (lit ''company_domain''))
             then AList.update (lit ''company'') (dict_get data (lit ''company_domain'')) attributes
             else if truthy (dict_get data (lit ''company_record_id''))
             then AList.update (lit ''company'')
                    (JArr [JObj [(lit ''target_object'', JStr (lit ''companies'')),
                                 (lit ''target_record_id'',
                                    dict_get data (lit ''company_record_id''))]])
                    attributes
             else attributes);
          notes_parts =
            (if truthy (dict_get data (lit ''notes'')) then [str_of (dict_get data (lit ''notes''))]
             else []);
          attributes =
            (if notes_parts \<noteq> []
             then AList.update (lit ''description'') (JStr (join_lines notes_parts)) attributes
             else attributes)
      in wrap_values attributes)"

definition email_domain :: "str \<Rightarrow> str" where
  "email_domain e = (if 64 \<in> set e then split_on 64 e ! 1 else e)"

definition build_company_payload :: "pydict \<Rightarrow> json" where
  "build_company_payload data =
     (let attributes =
            [(lit ''name'',
                (if truthy (dict_get data (lit ''company'')) then dict_get data (lit ''company'')
                 else dict_get data (lit ''name'')))];
          attributes = set_if data (lit ''location'') (lit ''locations'')
            (JArr [dict_get data (lit ''location'')]) attributes;
          attributes = set_if data (lit ''email'') (lit ''domains'')
            (JArr [JObj [(lit ''domain'',
                JStr (email_domain (str_of (dict_get data (lit ''email'')))))]]) attributes;
          desc_parts =
            (if truthy (dict_get data (lit ''name'')) \<and> truthy (dict_get data (lit ''company''))
             then [lit ''Contact: '' @ str_of (dict_get data (lit ''name''))] else [])
            @ (if truthy (dict_get data (lit ''job_title''))
               then [lit ''Title: '' @ str_of (dict_get data (lit ''job_title''))] else [])
            @ (if truthy (dict_get data (lit ''email''))
               then [lit ''Email: '' @ str_of (dict_get data (lit ''email''))] else [])
            @ (if truthy (dict_get data (lit ''phone''))
               then [lit ''Phone: '' @ str_of (dict_get data (lit ''phone''))] else [])
            @ (if truthy (dict_get data (lit ''linkedin_url''))
               then [lit ''LinkedIn: '' @ str_of (dict_get data (lit ''linkedin_url''))] else [])
            @ (if truthy (dict_get data (lit ''notes''))
               then [10 # str_of (dict_get data (lit ''notes''))] else []);
          attributes =
            (if desc_parts \<noteq> []
             then AList.update (lit ''description'') (JStr (join_lines desc_parts)) attributes
             else attributes)
      in wrap_values attributes)"

definition build_deal_payload :: "pydict \<Rightarrow> exn + json" where
  "build_deal_payload data =
     (let attributes = [(lit ''name'', dict_get data (lit ''name''))];
          valued =
            (if truthy (dict_get data (lit ''deal_value''))
             then (case py_int (dict_get data (lit ''deal_value'')) of
                     Inl e \<Rightarrow> Inl e
                   | Inr amount \<Rightarrow>
                       Inr (AList.update (lit ''value'')
                              (JObj [(lit ''currency'', JStr (lit ''USD'')),
                                     (lit ''value'', JInt amount)]) attributes))
             else Inr attributes)
      in case valued of
           Inl e \<Rightarrow> Inl e
         | Inr attributes \<Rightarrow>
             (let attributes = set_if data (lit ''deal_stage'') (lit ''stage'')
                    (dict_get data (lit ''deal_stage'')) attributes;
                  desc_parts =
                    (if truthy (dict_get data (lit ''company''))
                     then [lit ''Company: '' @ str_of (dict_get data (lit ''company''))] else [])
                    @ (if truthy (dict_get data (lit ''name''))
                          \<and> \<not> truthy (dict_get data (lit ''company''))
                       then [lit ''Contact: '' @ str_of (dict_get data (lit ''name''))] else [])
                    @ (if truthy (dict_get data (lit ''notes''))
                       then [str_of (dict_get data (lit ''notes''))] else []);
                  attributes =
                    (if desc_parts \<noteq> []
                     then AList.update (lit ''description'') (JStr (join_lines desc_parts))
                            attributes
                     else attributes)
              in Inr (wrap_values attributes)))"

definition build_user_payload :: "pydict \<Rightarrow> json" where
  "build_user_payload data =
     (let attributes = [(lit ''name'', dict_get data (lit ''name''))];
          attributes = set_if data (lit ''email'') (lit ''email_address'')
            (dict_get data (lit ''email'')) attributes;
          attributes = set_if data (lit ''job_title'') (lit ''job_title'')
            (dict_get data (lit ''job_title'')) attributes;
          attributes = set_if data (lit ''notes'') (lit ''description'')
            (dict_get data (lit ''notes'')) attributes
      in wrap_values attributes)"

definition build_attio_payload :: "pydict \<Rightarrow> str \<Rightarrow> exn + json" where
  "build_attio_payload data kind =
     (if kind = lit ''person'' then Inr (build_person_payload data)
      else if kind = lit ''company'' then Inr (build_company_payload data)
      else if kind = lit ''deal'' then build_deal_payload data
      else if kind = lit ''user'' then Inr (build_user_payload data)
      else Inl (AttioAPIError (lit ''Unknown object type: '' @ kind)))"

subsection \<open>The missing-attribute pattern\<close>

text \<open>
  The \<open>re.search\<close> of line 145. Its pattern is the words
  \<open>Cannot find attribute with slug/ID\<close> and a space, then one opening quote (U+0022,
  U+0027 or U+201C), then as group 1 the longest non-empty run of characters that are not a
  closing quote (U+0022, U+0027 or U+201D), then one closing quote; a shorter run cannot
  match, since it would be followed by a character of the run. The search returns group 1
  of the leftmost match.
\<close>

definition missing_phrase :: str where
  "missing_phrase = lit ''Cannot find attribute with slug/ID ''"

definition open_quote :: "int \<Rightarrow> bool" where
  "open_quote c = (c = 34 \<or> c = 39 \<or> c = 8220)"

definition close_quote :: "int \<Rightarrow> bool" where
  "close_quote c = (c = 34 \<or> c = 39 \<or> c = 8221)"

definition match_here :: "str \<Rightarrow> str option" where
  "match_here t =
     (if prefix missing_phrase t then
        (case drop (length missing_phrase) t of
           [] \<Rightarrow> None
         | q # r \<Rightarrow>
             if open_quote q \<and> takeWhile (\<lambda>c. \<not> close_quote c) r \<noteq> []
                 \<and> dropWhile (\<lambda>c. \<not> close_quote c) r \<noteq> []
             then Some (takeWhile (\<lambda>c. \<not> close_quote c) r)
             else None)
      else None)"

fun search_missing :: "str \<Rightarrow> str option" where
  "search_missing [] = None"
| "search_missing (c # cs) =
     (case match_here (c # cs) of Some slug \<Rightarrow> Some slug | None \<Rightarrow> search_missing cs)"

text \<open>
  Lines 135 to 147 of \<open>create_record\<close>: the attribute to create, when the failure is a
  response with status 400 whose body decodes to a dictionary with a string \<open>message\<close>
  that contains \<open>Cannot find attribute\<close> and matches the pattern. Every other shape of
  the body raises inside the \<open>try\<close> block or fails a test, and nothing is created.
\<close>

definition missing_attribute :: "http_outcome \<Rightarrow> str option" where
  "missing_attribute failure =
     (case failure of
        HttpError status_code (Some (JObj error_data)) e \<Rightarrow>
          (if status_code = 400 then
             (case map_of error_data (lit ''message'') of
                Some (JStr error_message) \<Rightarrow>
                  if str_in (lit ''Cannot find attribute'') error_message
                  then search_missing error_message else None
              | _ \<Rightarrow> None)
           else None)
      | _ \<Rightarrow> None)"

text \<open>
  Lines 177 to 185: the detail of the \<open>AttioAPIError\<close> raised for the failure of the
  first create call.
\<close>

definition error_detail :: "library \<Rightarrow> http_outcome \<Rightarrow> str" where
  "error_detail L failure =
     (case failure of
        HttpError status_code (Some (JObj error_data)) e \<Rightarrow>
          (case map_of error_data (lit ''message'') of
             Some v \<Rightarrow> format_val L v
           | None \<Rightarrow> e)
      | HttpError status_code _ e \<Rightarrow> e
      | NoResponse e \<Rightarrow> e
      | Created r \<Rightarrow> [])"

definition creation_failed :: "library \<Rightarrow> str \<Rightarrow> http_outcome \<Rightarrow> exn" where
  "creation_failed L kind failure =
     AttioAPIError (capitalize kind @ lit '' creation failed: '' @ error_detail L failure)"

text \<open>
  \<open>created_record.get('id', {}).get('record_id', ...)\<close>: the value, or the
  \<open>AttributeError\<close> raised when the record or its \<open>id\<close> is not a dictionary.
\<close>

definition get_record_id :: "json \<Rightarrow> exn + json" where
  "get_record_id r =
     (case r of
        JObj d \<Rightarrow>
          (case map_of d (lit ''id'') of
             None \<Rightarrow> Inr JNull
           | Some (JObj i) \<Rightarrow> Inr (dict_get i (lit ''record_id''))
           | Some _ \<Rightarrow> Inl AttributeError)
      | _ \<Rightarrow> Inl AttributeError)"

subsection \<open>\<open>_create_or_get_company\<close>\<close>

definition company_request :: "str \<Rightarrow> json \<Rightarrow> str option \<Rightarrow> request" where
  "company_request company_name company_notes website_domain =
     (let company_values = [(lit ''name'', JStr company_name)];
          company_values =
            (case website_domain of
               Some d \<Rightarrow>
                 if d \<noteq> []
                 then AList.update (lit ''domains'') (JArr [JObj [(lit ''domain'', JStr d)]])
                        company_values
                 else company_values
             | None \<Rightarrow> company_values);
          company_values =
            (if truthy company_notes
             then AList.update (lit ''description'') company_notes company_values
             else company_values)
      in \<lparr>endpoint = records_endpoint (lit ''companies''),
          payload = wrap_values company_values\<rparr>)"

definition create_or_get_company ::
  "library \<Rightarrow> llm \<Rightarrow> crm \<Rightarrow> str \<Rightarrow> json \<Rightarrow> trace
     \<Rightarrow> (json option \<times> str option) \<times> trace" where
  "create_or_get_company L M C company_name company_notes tr =
     (case search_company_website L M company_name False (gen_calls tr) of
        (website_domain, gen1) \<Rightarrow>
          (let req = company_request company_name company_notes website_domain;
               tr1 = \<lparr>gen_calls = gen1, http_calls = http_calls tr @ [req]\<rparr>
           in case C (http_calls tr) req of
                Created company_record \<Rightarrow> ((Some company_record, website_domain), tr1)
              | _ \<Rightarrow> ((None, None), tr1)))"

subsection \<open>\<open>create_record\<close>\<close>

definition valid_types :: "str list" where
  "valid_types = [lit ''person'', lit ''company'', lit ''deal'', lit ''user'']"

definition invalid_object_type :: "str \<Rightarrow> exn" where
  "invalid_object_type kind =
     AttioAPIError (lit ''Invalid object_type: '' @ kind @ lit ''. Must be one of [''
       @ [39] @ lit ''person'' @ [39] @ lit '', '' @ [39] @ lit ''company'' @ [39] @ lit '', ''
       @ [39] @ lit ''deal'' @ [39] @ lit '', '' @ [39] @ lit ''user'' @ [39] @ lit '']'')"

definition object_plural :: "str \<Rightarrow> str" where
  "object_plural kind =
     (if kind = lit ''person'' then lit ''people''
      else if kind = lit ''company'' then lit ''companies''
      else if kind = lit ''deal'' then lit ''deals''
      else lit ''users'')"

text \<open>
  Lines 84 to 95: what is kept of a company that was created. The identifier of the record
  is preferred; the domain is kept when there is no identifier.
\<close>

definition link_company :: "json option \<Rightarrow> str option \<Rightarrow> pydict \<Rightarrow> exn + pydict" where
  "link_company company_record company_domain data =
     (case company_record of
        None \<Rightarrow> Inr data
      | Some r \<Rightarrow>
          if truthy r then
            (case get_record_id r of
               Inl e \<Rightarrow> Inl e
             | Inr record_id \<Rightarrow>
                 if truthy record_id
                 then Inr (AList.update (lit ''company_record_id'') record_id data)
                 else
                   (case company_domain of
                      Some d \<Rightarrow>
                        if d \<noteq> [] then Inr (AList.update (lit ''company_domain'') (JStr d) data)
                        else Inr data
                    | None \<Rightarrow> Inr data))
          else Inr data)"

text \<open>
  Lines 68 to 98: the test of the object kind, the creation of the company of a person,
  and the payload. The result is the payload with the trace so far, or the exception
  raised.
\<close>

definition prepare_record ::
  "library \<Rightarrow> llm \<Rightarrow> crm \<Rightarrow> LeadData \<Rightarrow> trace \<Rightarrow> (exn + json) \<times> trace" where
  "prepare_record L M C lead_data tr =
     (if object_type lead_data \<notin> set valid_types
      then (Inl (invalid_object_type (object_type lead_data)), tr)
      else
        (let data = lead_data_to_dict lead_data
         in if object_type lead_data = lit ''person'' \<and> truthy (dict_get data (lit ''company''))
            then
              (case create_or_get_company L M C (str_of (dict_get data (lit ''company'')))
                      (dict_get data (lit ''notes'')) tr of
                 ((company_record, company_domain), tr1) \<Rightarrow>
                   (case link_company company_record company_domain data of
                      Inl e \<Rightarrow> (Inl e, tr1)
                    | Inr data1 \<Rightarrow> (build_attio_payload data1 (object_type lead_data), tr1)))
            else (build_attio_payload data (object_type lead_data), tr)))"

text \<open>
  Lines 110 to 185: the create call, the creation of a missing attribute and the one
  replay, from the history of requests. An \<open>AttributeError\<close> raised on the record of the
  first call is not a \<open>RequestException\<close> and leaves the function; raised on the record of
  the replay it is caught with every other exception of the repair, and the error of the
  first call is raised.
\<close>

definition record_request :: "str \<Rightarrow> json \<Rightarrow> request" where
  "record_request kind body =
     \<lparr>endpoint = records_endpoint (object_plural kind), payload = body\<rparr>"

definition post_record ::
  "library \<Rightarrow> crm \<Rightarrow> str \<Rightarrow> json \<Rightarrow> request list \<Rightarrow> (exn + json) \<times> request list" where
  "post_record L C kind body hist =
     (let req = record_request kind body;
          hist1 = hist @ [req]
      in case C hist req of
           Created created_record \<Rightarrow>
             (case get_record_id created_record of
                Inl e \<Rightarrow> (Inl e, hist1)
              | Inr record_id \<Rightarrow> (Inr created_record, hist1))
         | failure \<Rightarrow>
             (case missing_attribute failure of
                None \<Rightarrow> (Inl (creation_failed L kind failure), hist1)
              | Some slug \<Rightarrow>
                  (case create_attribute L C (object_plural kind) slug hist1 of
                     (Inl create_error, hist2) \<Rightarrow> (Inl (creation_failed L kind failure), hist2)
                   | (Inr u, hist2) \<Rightarrow>
                       (case C hist2 req of
                          Created created_record \<Rightarrow>
                            (case get_record_id created_record of
                               Inl e \<Rightarrow> (Inl (creation_failed L kind failure), hist2 @ [req])
                             | Inr record_id \<Rightarrow> (Inr created_record, hist2 @ [req]))
                        | retry_failure \<Rightarrow>
                            (Inl (creation_failed L kind failure), hist2 @ [req])))))"

definition create_record ::
  "library \<Rightarrow> llm \<Rightarrow> crm \<Rightarrow> LeadData \<Rightarrow> trace \<Rightarrow> (exn + json) \<times> trace" where
  "create_record L M C lead_data tr =
     (case prepare_record L M C lead_data tr of
        (Inl e, tr1) \<Rightarrow> (Inl e, tr1)
      | (Inr body, tr1) \<Rightarrow>
          (case post_record L C (object_type lead_data) body (http_calls tr1) of
             (result, hist) \<Rightarrow> (result, tr1\<lparr>http_calls := hist\<rparr>)))"

subsection \<open>The records of the module's self-test\<close>

text \<open>The three records built under \<open>__main__\<close> in \<open>attio_client.py\<close>.\<close>

definition test_person :: LeadData where
  "test_person =
     \<lparr>object_type = lit ''person'', name = lit ''John Doe'',
      email = Some (lit ''john.doe@example.com''), phone = Some (lit ''+1-555-123-4567''),
      company = Some (lit ''Example Corp''), job_title = Some (lit ''Software Engineer''),
      location = Some (lit ''San Francisco, CA''), linkedin_url = None, deal_value = None,
      deal_stage = None, notes = Some (lit ''Met at tech conference'')\<rparr>"

definition test_company :: LeadData where
  "test_company =
     \<lparr>object_type = lit ''company'', name = lit ''Acme Corp'', email = None, phone = None,
      company = None, job_title = None, location = Some (lit ''New York''),
      linkedin_url = None, deal_value = None, deal_stage = None,
      notes = Some (lit ''SaaS company'')\<rparr>"

definition test_deal :: LeadData where
  "test_deal =
     \<lparr>object_type = lit ''deal'', name = lit ''Enterprise Deal with TechCo'', email = None,
      phone = None, company = Some (lit ''TechCo''), job_title = None, location = None,
      linkedin_url = None, deal_value = Some (Finite 50000),
      deal_stage = Some (lit ''negotiation''), notes = Some (lit ''Q1 2024 target'')\<rparr>"

text \<open>
  The lines of the description of a deal as the specification words it: the company when
  there is one, else the contact name, followed by the notes.
\<close>

definition deal_desc_parts :: "LeadData \<Rightarrow> str list" where
  "deal_desc_parts lead =
     (case company lead of
        Some c \<Rightarrow> if c \<noteq> [] then [lit ''Company: '' @ c]
                  else if name lead \<noteq> [] then [lit ''Contact: '' @ name lead] else []
      | None \<Rightarrow> if name lead \<noteq> [] then [lit ''Contact: '' @ name lead] else [])
     @ (case notes lead of Some n \<Rightarrow> if n \<noteq> [] then [n] else [] | None \<Rightarrow> [])"

subsection \<open>A scripted CRM\<close>



section \<open>Properties of the model gateway\<close>

lemma str_in_sublist: "str_in pat t = sublist pat t"
  by (induction t) (auto simp: sublist_Cons_right)

lemma str_in_iff: "str_in pat t \<longleftrightarrow> (\<exists>pre suf. t = pre @ pat @ suf)"
  by (simp add: str_in_sublist sublist_def)

lemma str_in_single: "str_in [c] t \<longleftrightarrow> c \<in> set t"
  by (induction t) auto

lemma call_gemini_api_fallback:
  "call_gemini_api M message True hist =
     (case gemini_attempt (M hist (gemini_call True message)) of
        Inr t \<Rightarrow> Inr t
      | Inl e \<Rightarrow> Inl (GeminiProcessingError (request_failed e)),
      hist @ [gemini_call True message])"
  by (simp add: call_gemini_api.simps Let_def split: sum.splits)

lemma call_gemini_api_primary:
  "call_gemini_api M message False hist =
     (case gemini_attempt (M hist (gemini_call False message)) of
        Inr t \<Rightarrow> (Inr t, hist @ [gemini_call False message])
      | Inl e \<Rightarrow>
          if is_quota_error e then
            (case gemini_attempt
                    (M (hist @ [gemini_call False message]) (gemini_call True message)) of
               Inr t \<Rightarrow> Inr t
             | Inl fe \<Rightarrow>
                 Inl (GeminiProcessingError (both_failed e (request_failed fe))),
             hist @ [gemini_call False message, gemini_call True message])
          else (Inl (GeminiProcessingError (request_failed e)),
                hist @ [gemini_call False message]))"
  by (subst call_gemini_api.simps)
     (simp add: call_gemini_api_fallback Let_def split: sum.splits)




lemma search_company_website_fallback:
  "search_company_website L M company_name True hist =
     (case M hist (website_call True company_name) of
        Text t \<Rightarrow> website_of_text L t
      | GenError e \<Rightarrow> None,
      hist @ [website_call True company_name])"
  by (simp add: search_company_website.simps Let_def split: gen_outcome.splits)

lemma search_company_website_primary:
  "search_company_website L M company_name False hist =
     (case M hist (website_call False company_name) of
        Text t \<Rightarrow> (website_of_text L t, hist @ [website_call False company_name])
      | GenError e \<Rightarrow>
          if is_quota_error e then
            (case M (hist @ [website_call False company_name])
                    (website_call True company_name) of
               Text t \<Rightarrow> website_of_text L t
             | GenError fe \<Rightarrow> None,
             hist @ [website_call False company_name, website_call True company_name])
          else (None, hist @ [website_call False company_name]))"
  by (subst search_company_website.simps)
     (simp add: search_company_website_fallback Let_def split: gen_outcome.splits)

text \<open>
  Claim C3. One invocation of the gateway makes at most two generation attempts: started on
  the primary model it makes one attempt, or one on the primary and one on the fallback
  model; started on the fallback model it makes exactly one attempt, whatever error that
  attempt produces. The same holds for the website lookup, which carries its own copy of
  the policy.
\<close>

theorem at_most_two_generation_attempts:
  "(snd (call_gemini_api M message False hist) = hist @ [gemini_call False message]
      \<or> snd (call_gemini_api M message False hist)
          = hist @ [gemini_call False message, gemini_call True message])
   \<and> snd (call_gemini_api M message True hist) = hist @ [gemini_call True message]
   \<and> length (snd (call_gemini_api M message use_fallback hist)) \<le> length hist + 2
   \<and> (snd (search_company_website L M company_name False hist)
          = hist @ [website_call False company_name]
      \<or> snd (search_company_website L M company_name False hist)
          = hist @ [website_call False company_name, website_call True company_name])
   \<and> snd (search_company_website L M company_name True hist)
        = hist @ [website_call True company_name]
   \<and> length (snd (search_company_website L M company_name use_fallback hist))
        \<le> length hist + 2"
proof -
  have a: "length (snd (call_gemini_api M message use_fallback hist)) \<le> length hist + 2"
    by (cases use_fallback)
       (simp_all add: call_gemini_api_primary call_gemini_api_fallback split: sum.splits)
  have b: "length (snd (search_company_website L M company_name use_fallback hist))
             \<le> length hist + 2"
    by (cases use_fallback)
       (simp_all add: search_company_website_primary search_company_website_fallback
          split: gen_outcome.splits)
  show ?thesis
    using a b
    by (simp add: call_gemini_api_primary call_gemini_api_fallback
          search_company_website_primary search_company_website_fallback
          split: sum.splits gen_outcome.splits)
qed

section \<open>Properties of the response parser\<close>

lemma json_match_SomeD:
  assumes "json_match t = Some m"
  shows "\<exists>pre mid suf. t = pre @ [123] @ mid @ [125] @ suf \<and> 123 \<notin> set pre
            \<and> 125 \<notin> set suf \<and> m = [123] @ mid @ [125]"
proof -
  define pre where "pre = takeWhile (\<lambda>c. c \<noteq> 123) t"
  define fb where "fb = dropWhile (\<lambda>c. c \<noteq> 123) t"
  have t: "t = pre @ fb" by (simp add: pre_def fb_def)
  have pre: "123 \<notin> set pre" unfolding pre_def by (auto dest: set_takeWhileD)
  from assms have in_fb: "125 \<in> set fb" and m: "m = rev (dropWhile (\<lambda>c. c \<noteq> 125) (rev fb))"
    by (auto simp: json_match_def Let_def fb_def split: if_splits)
  from in_fb obtain ys zs where fb: "fb = ys @ 125 # zs" and zs: "125 \<notin> set zs"
    by (auto dest: split_list_last)
  from in_fb have "fb \<noteq> []" by auto
  then have "hd fb = 123" unfolding fb_def using hd_dropWhile [of "\<lambda>c. c \<noteq> 123" t] by auto
  with fb obtain mid where ys: "ys = 123 # mid" by (cases ys) auto
  have "dropWhile (\<lambda>c. c \<noteq> 125) (rev zs @ 125 # rev ys) = 125 # rev ys"
    using zs by (auto simp: dropWhile_append3)
  then have "m = ys @ [125]" by (simp add: m fb)
  with t pre fb zs ys show ?thesis by auto
qed

lemma json_match_SomeI:
  assumes "123 \<notin> set pre" "125 \<notin> set suf"
  shows "json_match (pre @ [123] @ mid @ [125] @ suf) = Some ([123] @ mid @ [125])"
proof -
  have fb: "dropWhile (\<lambda>c. c \<noteq> 123) (pre @ [123] @ mid @ [125] @ suf) = 123 # mid @ 125 # suf"
    using assms(1) by (auto simp: dropWhile_append3)
  have "dropWhile (\<lambda>c. c \<noteq> 125) (rev suf @ 125 # rev (123 # mid)) = 125 # rev (123 # mid)"
    using assms(2) by (auto simp: dropWhile_append3)
  then have "rev (dropWhile (\<lambda>c. c \<noteq> 125) (rev (123 # mid @ 125 # suf))) = [123] @ mid @ [125]"
    by simp
  moreover have "125 \<in> set (123 # mid @ 125 # suf)" by simp
  ultimately show ?thesis unfolding json_match_def Let_def fb by (simp only: if_True)
qed

lemma json_match_iff:
  "json_match t = Some m \<longleftrightarrow>
     (\<exists>pre mid suf. t = pre @ [123] @ mid @ [125] @ suf \<and> 123 \<notin> set pre
        \<and> 125 \<notin> set suf \<and> m = [123] @ mid @ [125])"
  using json_match_SomeD [of t m] json_match_SomeI by blast

lemma json_match_None:
  assumes "123 \<notin> set t \<or> 125 \<notin> set (dropWhile (\<lambda>c. c \<noteq> 123) t)"
  shows "json_match t = None"
proof -
  have "125 \<notin> set (dropWhile (\<lambda>c. c \<noteq> 123) t)"
  proof (cases "123 \<in> set t")
    case True
    with assms show ?thesis by blast
  next
    case False
    then have "dropWhile (\<lambda>c. c \<noteq> 123) t = []" by (induction t) auto
    then show ?thesis by (simp only: set_simps empty_iff not_False_eq_True)
  qed
  then show ?thesis by (simp add: json_match_def Let_def)
qed

text \<open>
  Claim C5, as amended. \<open>parse_gemini_response\<close> first decodes the whole text and
  returns the value when that succeeds, whatever kind of JSON value it is; otherwise it
  takes the span from the first opening brace to the last closing brace, when there is a
  closing brace after the first opening one, and decodes that; when both fail it raises
  \<open>GeminiProcessingError\<close>. In particular a text made of a JSON object, a prefix without
  an opening brace and a suffix without a closing brace is parsed with success, and a text
  that does not decode and has no closing brace after a first opening brace fails.
\<close>

theorem parse_gemini_response_two_stages:
  "parse_gemini_response t =
     (case json_loads t of
        Some d \<Rightarrow> Inr d
      | None \<Rightarrow>
          (case json_match t of
             Some m \<Rightarrow> (case json_loads m of Some d \<Rightarrow> Inr d | None \<Rightarrow> Inl unparseable)
           | None \<Rightarrow> Inl unparseable))
   \<and> (json_match t = Some m \<longleftrightarrow>
        (\<exists>pre mid suf. t = pre @ [123] @ mid @ [125] @ suf \<and> 123 \<notin> set pre
           \<and> 125 \<notin> set suf \<and> m = [123] @ mid @ [125]))
   \<and> (123 \<notin> set pre \<and> 125 \<notin> set suf \<and> json_loads ([123] @ mid @ [125]) = Some d \<longrightarrow>
        parse_gemini_response (pre @ [123] @ mid @ [125] @ suf) =
          (case json_loads (pre @ [123] @ mid @ [125] @ suf) of
             Some whole \<Rightarrow> Inr whole
           | None \<Rightarrow> Inr d))
   \<and> (json_loads t = None
        \<and> (123 \<notin> set t \<or> 125 \<notin> set (dropWhile (\<lambda>c. c \<noteq> 123) t)) \<longrightarrow>
        parse_gemini_response t = Inl unparseable)
   \<and> (json_loads t = Some d \<longrightarrow> parse_gemini_response t = Inr d)"
proof -
  have a: "123 \<notin> set pre \<and> 125 \<notin> set suf \<and> json_loads ([123] @ mid @ [125]) = Some d \<longrightarrow>
        parse_gemini_response (pre @ [123] @ mid @ [125] @ suf) =
          (case json_loads (pre @ [123] @ mid @ [125] @ suf) of
             Some whole \<Rightarrow> Inr whole
           | None \<Rightarrow> Inr d)"
    using json_match_SomeI [of pre suf mid]
    by (auto simp: parse_gemini_response_def split: option.splits)
  have b: "json_loads t = None
        \<and> (123 \<notin> set t \<or> 125 \<notin> set (dropWhile (\<lambda>c. c \<noteq> 123) t)) \<longrightarrow>
        parse_gemini_response t = Inl unparseable"
    using json_match_None [of t] by (auto simp: parse_gemini_response_def)
  have c: "json_loads t = Some d \<longrightarrow> parse_gemini_response t = Inr d"
    by (simp add: parse_gemini_response_def)
  show ?thesis
    using a b c json_match_iff [of t m]
    by (simp only: parse_gemini_response_def simp_thms)
qed

theorem parse_gemini_response_two_stages_witness:
  "json_loads (lit ''{}'') = Some (JObj [])
   \<and> parse_gemini_response (lit ''Here you go: {} Done.'') = Inr (JObj [])
   \<and> json_loads (lit ''Sorry, no.'') = None
   \<and> parse_gemini_response (lit ''Sorry, no.'') = Inl unparseable
   \<and> parse_gemini_response (lit ''{}'') = Inr (JObj [])"
proof -
  have l1: "json_loads (lit ''{}'') = Some (JObj [])" by code_simp
  have l2: "json_loads (lit ''Here you go: {} Done.'') = None" by code_simp
  have l3: "json_loads (lit ''Sorry, no.'') = None" by code_simp
  note th = parse_gemini_response_two_stages
            [where pre = "lit ''Here you go: ''" and mid = "[]" and suf = "lit '' Done.''"
               and d = "JObj []" and t = "lit ''Sorry, no.''"]
  note th2 = parse_gemini_response_two_stages [where t = "lit ''{}''" and d = "JObj []"]
  show ?thesis
    using th [THEN conjunct2, THEN conjunct2, THEN conjunct1]
          th [THEN conjunct2, THEN conjunct2, THEN conjunct2, THEN conjunct1]
          th2 [THEN conjunct2, THEN conjunct2, THEN conjunct2, THEN conjunct2]
          l1 l2 l3
    by (simp add: lit_def)
qed

text \<open>
  The claim as the specification states it fails. A text can hold exactly one JSON object
  and a brace elsewhere; the span from the first opening to the last closing brace is then
  not the object, and the parse fails. A text without any JSON object can still be JSON, a
  number or an array, and then the parser returns that value.
\<close>

theorem parse_gemini_response_counterexample:
  "parse_gemini_response (lit ''Result: {} (ends with })'') = Inl unparseable
   \<and> parse_gemini_response (lit ''For {name} use: {'' @ [34] @ lit ''name'' @ [34] @ lit '': 1}'')
       = Inl unparseable
   \<and> json_loads (lit ''{'' @ [34] @ lit ''name'' @ [34] @ lit '': 1}'')
       = Some (JObj [(lit ''name'', JInt 1)])
   \<and> parse_gemini_response (lit ''42'') = Inr (JInt 42)
   \<and> parse_gemini_response (lit ''[]'') = Inr (JArr [])"
  by code_simp

section \<open>Properties of the website lookup\<close>

lemma set_remove_all: "set (remove_all old t) \<subseteq> set t"
proof (induction old t rule: remove_all.induct)
  case (1 old)
  show ?case by simp
next
  case (2 old c cs)
  show ?case
  proof (cases "old \<noteq> [] \<and> prefix old (c # cs)")
    case True
    with 2 have "set (remove_all old (drop (length old - 1) cs)) \<subseteq> set (drop (length old - 1) cs)"
      by simp
    also have "\<dots> \<subseteq> set cs" by (rule set_drop_subset)
    finally show ?thesis using True by auto
  next
    case False
    with 2 show ?thesis by auto
  qed
qed

lemma set_strip_by: "set (strip_by P t) \<subseteq> set t"
proof
  fix x assume "x \<in> set (strip_by P t)"
  then have "x \<in> set (dropWhile P (rev (dropWhile P t)))" by (simp add: strip_by_def)
  then have "x \<in> set (rev (dropWhile P t))" by (rule set_dropWhileD)
  then have "x \<in> set (dropWhile P t)" by simp
  then show "x \<in> set t" by (rule set_dropWhileD)
qed

lemma lit_dot: "lit ''.'' = [46]"
  by (simp add: lit_def)

lemma lit_space: "lit '' '' = [32]"
  by (simp add: lit_def)

lemma lit_slash: "lit ''/'' = [47]"
  by (simp add: lit_def)

lemma str_lower_ascii: "list_all is_ascii t \<Longrightarrow> str_lower L t = map ascii_lower t"
  by (simp add: str_lower_def)

lemma dot_in_ascii_lower: "46 \<in> set (map ascii_lower t) \<longleftrightarrow> 46 \<in> set t"
  by (induction t) (auto simp: ascii_lower_def)

lemma clean_website_subset: "set (clean_website L t) \<subseteq> set (str_lower L (strip t))"
  unfolding clean_website_def Let_def strip_chars_def
  by (meson set_strip_by set_remove_all subset_trans)

lemma website_of_text_iff:
  "website_of_text L t = Some w \<longleftrightarrow>
     t \<noteq> [] \<and> w = clean_website L t \<and> w \<noteq> lit ''none'' \<and> 46 \<in> set w \<and> 32 \<notin> set w"
  by (auto simp: website_of_text_def Let_def lit_dot lit_space str_in_single)

lemma website_needs_dot:
  "46 \<notin> set (str_lower L (strip t)) \<Longrightarrow> website_of_text L t = None"
proof -
  assume a: "46 \<notin> set (str_lower L (strip t))"
  have "website_of_text L t \<noteq> Some w" for w
    using a clean_website_subset [of L t] by (auto simp: website_of_text_iff)
  then show ?thesis by (cases "website_of_text L t") auto
qed

lemma strip_ascii: "list_all is_ascii t \<Longrightarrow> list_all is_ascii (strip t)"
  using set_strip_by [of isspace t] by (auto simp: strip_def list_all_iff)

lemma ascii_website_needs_dot:
  assumes "list_all is_ascii t" "46 \<notin> set t"
  shows "website_of_text L t = None"
proof -
  have "46 \<notin> set (strip t)" using assms(2) set_strip_by [of isspace t] by (auto simp: strip_def)
  then have "46 \<notin> set (str_lower L (strip t))"
    by (simp only: str_lower_ascii [OF strip_ascii [OF assms(1)]] dot_in_ascii_lower
          not_False_eq_True)
  then show ?thesis by (rule website_needs_dot)
qed

lemma str_in_drop: "str_in pat (drop n t) \<Longrightarrow> str_in pat t"
proof -
  assume "str_in pat (drop n t)"
  then obtain pre suf where "drop n t = pre @ pat @ suf" by (auto simp: str_in_iff)
  then have "t = (take n t @ pre) @ pat @ suf"
    using append_take_drop_id [of n t] by simp
  then show ?thesis unfolding str_in_iff by blast
qed

lemma remove_all_absent: "\<not> str_in old t \<Longrightarrow> remove_all old t = t"
  by (induction old t rule: remove_all.induct) auto

lemma remove_all_prefix_only:
  assumes "old \<noteq> []" "\<not> str_in old (drop 1 s)"
  shows "remove_all old s = strip_prefix old s"
proof (cases s)
  case Nil
  then show ?thesis by (simp add: strip_prefix_def)
next
  case (Cons c cs)
  with assms(2) have n: "\<not> str_in old cs" by simp
  show ?thesis
  proof (cases "prefix old (c # cs)")
    case True
    have "\<not> str_in old (drop (length old - 1) cs)" using n str_in_drop by blast
    then have "remove_all old (drop (length old - 1) cs) = drop (length old - 1) cs"
      by (rule remove_all_absent)
    moreover have "drop (length old - 1) cs = drop (length old) (c # cs)"
      using assms(1) by (cases old) simp_all
    ultimately show ?thesis using True assms(1) Cons by (simp add: strip_prefix_def)
  next
    case False
    then show ?thesis using Cons n by (simp add: strip_prefix_def remove_all_absent)
  qed
qed

lemma clean_website_prefixes:
  assumes "s = str_lower L (strip t)"
    and "\<not> str_in (lit ''https://'') (drop 1 s)"
    and "\<not> str_in (lit ''http://'') (drop 1 (strip_prefix (lit ''https://'') s))"
    and "\<not> str_in (lit ''www.'')
           (drop 1 (strip_prefix (lit ''http://'') (strip_prefix (lit ''https://'') s)))"
  shows "clean_website L t =
     strip_by (\<lambda>c. c = 47)
       (strip_prefix (lit ''www.'') (strip_prefix (lit ''http://'')
          (strip_prefix (lit ''https://'') s)))"
proof -
  have a: "remove_all (lit ''https://'') s = strip_prefix (lit ''https://'') s"
    using assms(2) by (intro remove_all_prefix_only) (simp_all add: lit_def)
  have b: "remove_all (lit ''http://'') (strip_prefix (lit ''https://'') s)
             = strip_prefix (lit ''http://'') (strip_prefix (lit ''https://'') s)"
    using assms(3) by (intro remove_all_prefix_only) (simp_all add: lit_def)
  have c: "remove_all (lit ''www.'')
             (strip_prefix (lit ''http://'') (strip_prefix (lit ''https://'') s))
           = strip_prefix (lit ''www.'')
               (strip_prefix (lit ''http://'') (strip_prefix (lit ''https://'') s))"
    using assms(4) by (intro remove_all_prefix_only) (simp_all add: lit_def)
  show ?thesis
    by (simp add: clean_website_def Let_def assms(1) [symmetric] a b c strip_chars_def lit_slash)
qed

text \<open>
  Claim C6, as amended. The website lookup never raises. It returns the cleaned text of
  the model's answer exactly when that answer is not empty and the cleaned text is not
  \<open>none\<close>, contains a dot and contains no space character (U+0020). For an answer in
  which \<open>https://\<close>, \<open>http://\<close> and \<open>www.\<close> occur as prefixes at most, the cleaned
  text is the answer trimmed and lowercased, without those prefixes and without the slashes
  at both ends. An answer whose lowercase form has no dot yields nothing, and so do
  \<open>NONE\<close>, \<open>none\<close> and \<open>contains space\<close>; \<open>https://www.Example.com/\<close> yields
  \<open>example.com\<close>. A failed generation call yields nothing, except that a quota failure
  of the primary model is followed by one call of the fallback model, whose answer is
  treated in the same way.
\<close>

theorem website_lookup_result:
  "search_company_website L M company_name False hist =
     (case M hist (website_call False company_name) of
        Text t \<Rightarrow> (website_of_text L t, hist @ [website_call False company_name])
      | GenError e \<Rightarrow>
          if is_quota_error e then
            (case M (hist @ [website_call False company_name])
                    (website_call True company_name) of
               Text t \<Rightarrow> website_of_text L t
             | GenError fe \<Rightarrow> None,
             hist @ [website_call False company_name, website_call True company_name])
          else (None, hist @ [website_call False company_name]))
   \<and> (website_of_text L t = Some w \<longleftrightarrow>
        t \<noteq> [] \<and> w = clean_website L t \<and> w \<noteq> lit ''none'' \<and> 46 \<in> set w \<and> 32 \<notin> set w)
   \<and> (s = str_lower L (strip_by isspace t)
        \<and> \<not> str_in (lit ''https://'') (drop 1 s)
        \<and> \<not> str_in (lit ''http://'') (drop 1 (strip_prefix (lit ''https://'') s))
        \<and> \<not> str_in (lit ''www.'')
              (drop 1 (strip_prefix (lit ''http://'') (strip_prefix (lit ''https://'') s)))
        \<longrightarrow> clean_website L t =
              strip_by (\<lambda>c. c = 47)
                (strip_prefix (lit ''www.'') (strip_prefix (lit ''http://'')
                   (strip_prefix (lit ''https://'') s))))
   \<and> (list_all is_ascii t \<longrightarrow> str_lower L t = map ascii_lower t)
   \<and> (46 \<notin> set (str_lower L (strip_by isspace t)) \<longrightarrow> website_of_text L t = None)
   \<and> (list_all is_ascii t \<and> 46 \<notin> set t \<longrightarrow> website_of_text L t = None)
   \<and> website_of_text L (lit ''https://www.Example.com/'') = Some (lit ''example.com'')
   \<and> website_of_text L (lit ''NONE'') = None
   \<and> website_of_text L (lit ''none'') = None
   \<and> website_of_text L (lit ''contains space'') = None"
proof -
  have ex1: "website_of_text L (lit ''https://www.Example.com/'') = Some (lit ''example.com'')"
    by code_simp
  have ex2: "website_of_text L (lit ''NONE'') = None" by code_simp
  have ex3: "website_of_text L (lit ''none'') = None" by code_simp
  have ex4: "website_of_text L (lit ''contains space'') = None" by code_simp
  have p: "s = str_lower L (strip_by isspace t)
        \<and> \<not> str_in (lit ''https://'') (drop 1 s)
        \<and> \<not> str_in (lit ''http://'') (drop 1 (strip_prefix (lit ''https://'') s))
        \<and> \<not> str_in (lit ''www.'')
              (drop 1 (strip_prefix (lit ''http://'') (strip_prefix (lit ''https://'') s)))
        \<longrightarrow> clean_website L t =
              strip_by (\<lambda>c. c = 47)
                (strip_prefix (lit ''www.'') (strip_prefix (lit ''http://'')
                   (strip_prefix (lit ''https://'') s)))"
    using clean_website_prefixes [of s L t] by (simp only: strip_def) blast
  have d1: "46 \<notin> set (str_lower L (strip_by isspace t)) \<longrightarrow> website_of_text L t = None"
    using website_needs_dot [of L t] by (simp only: strip_def) blast
  have d2: "list_all is_ascii t \<and> 46 \<notin> set t \<longrightarrow> website_of_text L t = None"
    using ascii_website_needs_dot [of t L] by blast
  have a: "list_all is_ascii t \<longrightarrow> str_lower L t = map ascii_lower t"
    by (simp add: str_lower_ascii)
  show ?thesis
    using ex1 ex2 ex3 ex4 p d1 d2 a website_of_text_iff [of L t w]
    by (simp only: search_company_website_primary simp_thms)
qed

theorem website_lookup_result_witness:
  "list_all is_ascii (lit ''acme'') \<and> 46 \<notin> set (lit ''acme'')
   \<and> 46 \<notin> set (str_lower plain_library (strip_by isspace (lit ''acme'')))
   \<and> website_of_text plain_library (lit ''acme'') = None
   \<and> str_lower plain_library (lit ''Stripe.COM'') = lit ''stripe.com''
   \<and> \<not> str_in (lit ''https://'') (drop 1 (lit ''https://www.stripe.com/''))
   \<and> \<not> str_in (lit ''http://'') (drop 1 (lit ''www.stripe.com/''))
   \<and> \<not> str_in (lit ''www.'') (drop 1 (lit ''www.stripe.com/''))
   \<and> clean_website plain_library (lit '' HTTPS://www.Stripe.com/ '') = lit ''stripe.com''"
proof -
  have h: "list_all is_ascii (lit ''acme'')" "46 \<notin> set (lit ''acme'')"
    "list_all is_ascii (lit ''Stripe.COM'')"
    by (simp_all add: lit_def is_ascii_def)
  have l: "str_lower plain_library (strip_by isspace (lit ''acme'')) = lit ''acme''"
    "str_lower plain_library (strip_by isspace (lit '' HTTPS://www.Stripe.com/ ''))
       = lit ''https://www.stripe.com/''"
    by code_simp+
  have sp: "strip_prefix (lit ''https://'') (lit ''https://www.stripe.com/'')
              = lit ''www.stripe.com/''"
    "strip_prefix (lit ''http://'') (lit ''www.stripe.com/'') = lit ''www.stripe.com/''"
    "strip_prefix (lit ''www.'') (lit ''www.stripe.com/'') = lit ''stripe.com/''"
    "strip_by (\<lambda>c. c = 47) (lit ''stripe.com/'') = lit ''stripe.com''"
    "map ascii_lower (lit ''Stripe.COM'') = lit ''stripe.com''"
    by code_simp+
  have n: "\<not> str_in (lit ''https://'') (drop 1 (lit ''https://www.stripe.com/''))"
    "\<not> str_in (lit ''http://'') (drop 1 (lit ''www.stripe.com/''))"
    "\<not> str_in (lit ''www.'') (drop 1 (lit ''www.stripe.com/''))"
    by code_simp+
  note th1 = website_lookup_result [where L = plain_library and t = "lit ''acme''"]
  note th2 = website_lookup_result
      [where L = plain_library and t = "lit '' HTTPS://www.Stripe.com/ ''"
         and s = "lit ''https://www.stripe.com/''"]
  note th3 = website_lookup_result [where L = plain_library and t = "lit ''Stripe.COM''"]
  show ?thesis
    using th1 [THEN conjunct2, THEN conjunct2, THEN conjunct2, THEN conjunct2, THEN conjunct2,
               THEN conjunct1]
          th2 [THEN conjunct2, THEN conjunct2, THEN conjunct1]
          th3 [THEN conjunct2, THEN conjunct2, THEN conjunct2, THEN conjunct1]
          h n
    by (simp add: l sp)
qed

text \<open>
  The claim as the specification states it fails: a tab inside the answer is whitespace,
  yet the answer is returned, since the test is for the space character; and a leading
  slash is removed, where the specification removes trailing slashes only.
\<close>

theorem website_lookup_spec_counterexample:
  "website_of_text plain_library (lit ''a.com'' @ [9] @ lit ''b'')
     = Some (lit ''a.com'' @ [9] @ lit ''b'')
   \<and> spec_resolve_domain plain_library (lit ''a.com'' @ [9] @ lit ''b'') = None
   \<and> website_of_text plain_library (lit ''/example.com'') = Some (lit ''example.com'')
   \<and> spec_resolve_domain plain_library (lit ''/example.com'') = Some (lit ''/example.com'')"
  by code_simp

section \<open>Properties of the CRM client\<close>

lemma lit_eq_iff [simp]: "lit a = lit b \<longleftrightarrow> a = b"
proof -
  have "inj (of_char :: char \<Rightarrow> int)" by (rule injI) simp
  then show ?thesis unfolding lit_def by (rule inj_map_eq_map)
qed

lemma lit_Nil [simp]: "lit [] = []"
  by (simp add: lit_def)

lemma lit_eq_Nil [simp]: "lit a = [] \<longleftrightarrow> a = []"
  by (simp add: lit_def)

lemma values_of_wrap [simp]: "values_of (wrap_values a) = a"
  by (simp add: values_of_def wrap_values_def dict_get_def)

lemma map_of_update:
  "map_of (AList.update k v al) k' = (if k' = k then Some v else map_of al k')"
  by (simp add: update_conv')

lemma truthy_opt_str: "truthy (opt_str x) \<longleftrightarrow> (\<exists>t. x = Some t \<and> t \<noteq> [])"
  by (cases x) (simp_all add: opt_str_def)

lemma split_on_not_Nil: "split_on sep t \<noteq> []"
  by (induction t) (auto split: list.splits)

lemma hd_split_on: "hd (split_on sep t) = takeWhile (\<lambda>c. c \<noteq> sep) t"
  using split_on_not_Nil [of sep] by (induction t) (auto split: list.splits)

lemma split_on_second:
  "sep \<in> set e \<Longrightarrow>
     split_on sep e ! Suc 0 = takeWhile (\<lambda>c. c \<noteq> sep) (tl (dropWhile (\<lambda>c. c \<noteq> sep) e))"
proof (induction e)
  case Nil
  then show ?case by simp
next
  case (Cons c cs)
  show ?case
  proof (cases "c = sep")
    case True
    then show ?thesis
      using hd_split_on [of sep cs] split_on_not_Nil [of sep cs] by (simp add: hd_conv_nth)
  next
    case False
    with Cons have "split_on sep cs ! Suc 0
        = takeWhile (\<lambda>c. c \<noteq> sep) (tl (dropWhile (\<lambda>c. c \<noteq> sep) cs))"
      by simp
    with False show ?thesis
      using split_on_not_Nil [of sep cs] by (auto split: list.splits)
  qed
qed

lemma email_domain_eq:
  "email_domain e =
     (if 64 \<in> set e then takeWhile (\<lambda>c. c \<noteq> 64) (tl (dropWhile (\<lambda>c. c \<noteq> 64) e)) else e)"
  by (simp add: email_domain_def split_on_second)

lemma email_domain_segment:
  assumes "64 \<notin> set a" "64 \<notin> set b"
  shows "email_domain (a @ [64] @ b) = b" "email_domain (a @ [64] @ b @ [64] @ rest) = b"
proof -
  have d: "dropWhile (\<lambda>c. c \<noteq> 64) (a @ 64 # r) = 64 # r" for r
    using assms(1) by (auto simp: dropWhile_append3)
  have t1: "takeWhile (\<lambda>c. c \<noteq> 64) b = b" using assms(2) by auto
  have t2: "takeWhile (\<lambda>c. c \<noteq> 64) (b @ 64 # rest) = b"
    using assms(2) by (induction b) auto
  show "email_domain (a @ [64] @ b) = b"
    unfolding email_domain_eq using d [of b] t1 by simp
  show "email_domain (a @ [64] @ b @ [64] @ rest) = b"
    unfolding email_domain_eq using d [of "b @ 64 # rest"] t2 by simp
qed

lemma dict_get_lead:
  "dict_get (lead_data_to_dict lead) (lit ''name'') = JStr (name lead)"
  "dict_get (lead_data_to_dict lead) (lit ''email'') = opt_str (email lead)"
  "dict_get (lead_data_to_dict lead) (lit ''phone'') = opt_str (phone lead)"
  "dict_get (lead_data_to_dict lead) (lit ''company'') = opt_str (company lead)"
  "dict_get (lead_data_to_dict lead) (lit ''job_title'') = opt_str (job_title lead)"
  "dict_get (lead_data_to_dict lead) (lit ''location'') = opt_str (location lead)"
  "dict_get (lead_data_to_dict lead) (lit ''linkedin_url'') = opt_str (linkedin_url lead)"
  "dict_get (lead_data_to_dict lead) (lit ''notes'') = opt_str (notes lead)"
  "dict_get (lead_data_to_dict lead) (lit ''deal_value'') = JNull"
  "dict_get (lead_data_to_dict lead) (lit ''deal_stage'') = JNull"
  "dict_get (lead_data_to_dict lead) (lit ''company_domain'') = JNull"
  "dict_get (lead_data_to_dict lead) (lit ''company_record_id'') = JNull"
  by (simp_all add: dict_get_def lead_data_to_dict_def)

lemma company_payload_domains:
  "email lead = Some e \<Longrightarrow> e \<noteq> [] \<Longrightarrow>
   map_of (values_of (build_company_payload (lead_data_to_dict lead))) (lit ''domains'')
     = Some (JArr [JObj [(lit ''domain'', JStr (email_domain e))]])"
  by (simp add: build_company_payload_def Let_def set_if_def dict_get_lead map_of_update
        opt_str_def)

lemma prepare_record_plain:
  "object_type lead \<in> set valid_types \<Longrightarrow>
   \<not> (object_type lead = lit ''person'' \<and> truthy (opt_str (company lead))) \<Longrightarrow>
   prepare_record L M C lead tr
     = (build_attio_payload (lead_data_to_dict lead) (object_type lead), tr)"
  by (auto simp: prepare_record_def Let_def dict_get_lead)

section \<open>Properties of the payloads\<close>

lemma valid_types_simps [simp]:
  "lit ''person'' \<in> set valid_types" "lit ''company'' \<in> set valid_types"
  "lit ''deal'' \<in> set valid_types" "lit ''user'' \<in> set valid_types"
  by (simp_all add: valid_types_def)

text \<open>
  Claim C10. For a lead whose email is set (present and not empty, as the fields of a
  LeadRecord are: absent, never the empty string), the company payload has a \<open>domains\<close>
  entry. Its domain is the email itself when the email has no \<open>@\<close>, and otherwise the
  segment between the first \<open>@\<close> and the second one, or the end of the email when there
  is no second one. For a lead of kind company this is the payload \<open>create_record\<close>
  sends.
\<close>

theorem company_domain_from_email:
  "(email lead = Some e \<and> e \<noteq> [] \<longrightarrow>
      map_of (values_of (build_company_payload (lead_data_to_dict lead))) (lit ''domains'')
        = Some (JArr [JObj [(lit ''domain'', JStr (email_domain e))]]))
   \<and> (object_type lead = lit ''company'' \<longrightarrow>
        prepare_record L M C lead tr
          = (Inr (build_company_payload (lead_data_to_dict lead)), tr))
   \<and> (64 \<notin> set e \<longrightarrow> email_domain e = e)
   \<and> (64 \<notin> set a \<and> 64 \<notin> set b \<longrightarrow>
        email_domain (a @ [64] @ b) = b \<and> email_domain (a @ [64] @ b @ [64] @ rest) = b)"
proof -
  have "object_type lead = lit ''company'' \<longrightarrow>
        prepare_record L M C lead tr
          = (Inr (build_company_payload (lead_data_to_dict lead)), tr)"
    using prepare_record_plain [of lead L M C tr] by (auto simp: build_attio_payload_def)
  then show ?thesis
    using company_payload_domains [of lead e] email_domain_segment [of a b]
    by (simp add: email_domain_eq)
qed

theorem company_domain_from_email_witness:
  "email (test_company\<lparr>email := Some (lit ''info@acme.com'')\<rparr>) = Some (lit ''info@acme.com'')
   \<and> lit ''info@acme.com'' \<noteq> []
   \<and> object_type (test_company\<lparr>email := Some (lit ''info@acme.com'')\<rparr>) = lit ''company''
   \<and> 64 \<notin> set (lit ''info'') \<and> 64 \<notin> set (lit ''acme.com'') \<and> 64 \<notin> set (lit ''acme'')
   \<and> map_of (values_of (build_company_payload
         (lead_data_to_dict (test_company\<lparr>email := Some (lit ''info@acme.com'')\<rparr>))))
         (lit ''domains'')
       = Some (JArr [JObj [(lit ''domain'', JStr (lit ''acme.com''))]])
   \<and> email_domain (lit ''acme'') = lit ''acme''
   \<and> email_domain (lit ''info@acme.com@x'') = lit ''acme.com''"
proof -
  have e: "lit ''info@acme.com'' = lit ''info'' @ [64] @ lit ''acme.com''"
     "lit ''info@acme.com@x'' = lit ''info'' @ [64] @ lit ''acme.com'' @ [64] @ lit ''x''"
    by (simp_all add: lit_def)
  have n: "64 \<notin> set (lit ''info'')" "64 \<notin> set (lit ''acme.com'')" "64 \<notin> set (lit ''acme'')"
    by (simp_all add: lit_def)
  note th = company_domain_from_email
      [where lead = "test_company\<lparr>email := Some (lit ''info@acme.com'')\<rparr>"
         and e = "lit ''info@acme.com''" and a = "lit ''info''" and b = "lit ''acme.com''"
         and rest = "lit ''x''"]
  note th2 = company_domain_from_email [where e = "lit ''acme''"]
  show ?thesis
    using th [THEN conjunct1] th [THEN conjunct2, THEN conjunct2, THEN conjunct2]
      th2 [THEN conjunct2, THEN conjunct2, THEN conjunct1] n
    by (simp add: e test_company_def)
qed

lemma deal_payload_of_lead:
  "build_deal_payload (lead_data_to_dict lead) =
     Inr (wrap_values
       ((lit ''name'', JStr (name lead))
        # (if deal_desc_parts lead = [] then []
           else [(lit ''description'', JStr (join_lines (deal_desc_parts lead)))])))"
  by (cases "company lead"; cases "notes lead")
     (simp_all add: build_deal_payload_def Let_def set_if_def dict_get_lead opt_str_def
        deal_desc_parts_def)

text \<open>
  Claim C8. The payload \<open>create_record\<close> builds for a deal holds the name and the
  description (the company when there is one, else the contact name, then the notes), and
  nothing else: \<open>_lead_data_to_dict\<close> copies neither \<open>deal_value\<close> nor
  \<open>deal_stage\<close>, so \<open>_build_deal_payload\<close> never finds them, although it adds the value
  and the stage to a dictionary that has them, as the last conjunct shows on the deal of
  the module's self-test.
\<close>

theorem deal_payload_lacks_value_and_stage:
  "(object_type lead = lit ''deal'' \<longrightarrow>
      prepare_record L M C lead tr = (build_deal_payload (lead_data_to_dict lead), tr))
   \<and> build_deal_payload (lead_data_to_dict lead) =
       Inr (wrap_values
         ((lit ''name'', JStr (name lead))
          # (if deal_desc_parts lead = [] then []
             else [(lit ''description'', JStr (join_lines (deal_desc_parts lead)))])))
   \<and> build_deal_payload
         (AList.update (lit ''deal_stage'') (JStr (lit ''negotiation''))
            (AList.update (lit ''deal_value'') (JFloat (Finite 50000))
               (lead_data_to_dict test_deal))) =
       Inr (wrap_values
         [(lit ''name'', JStr (lit ''Enterprise Deal with TechCo'')),
          (lit ''value'', JObj [(lit ''currency'', JStr (lit ''USD'')),
                                (lit ''value'', JInt 50000)]),
          (lit ''stage'', JStr (lit ''negotiation'')),
          (lit ''description'', JStr (lit ''Company: TechCo'' @ [10] @ lit ''Q1 2024 target''))])"
proof -
  have a: "object_type lead = lit ''deal'' \<longrightarrow>
      prepare_record L M C lead tr = (build_deal_payload (lead_data_to_dict lead), tr)"
    using prepare_record_plain [of lead L M C tr] by (auto simp: build_attio_payload_def)
  have b: "build_deal_payload
         (AList.update (lit ''deal_stage'') (JStr (lit ''negotiation''))
            (AList.update (lit ''deal_value'') (JFloat (Finite 50000))
               (lead_data_to_dict test_deal))) =
       Inr (wrap_values
         [(lit ''name'', JStr (lit ''Enterprise Deal with TechCo'')),
          (lit ''value'', JObj [(lit ''currency'', JStr (lit ''USD'')),
                                (lit ''value'', JInt 50000)]),
          (lit ''stage'', JStr (lit ''negotiation'')),
          (lit ''description'', JStr (lit ''Company: TechCo'' @ [10] @ lit ''Q1 2024 target''))])"
  proof -
    have c: "lit ''Company: '' @ lit ''TechCo'' = lit ''Company: TechCo''"
      by (simp add: lit_def)
    show ?thesis
      by (simp add: build_deal_payload_def Let_def set_if_def dict_get_def map_of_update
            lead_data_to_dict_def test_deal_def opt_str_def py_int_def join_lines_def
            c [symmetric])
  qed
  show ?thesis using a b deal_payload_of_lead [of lead] by simp
qed

theorem deal_payload_lacks_value_and_stage_witness:
  "object_type test_deal = lit ''deal''
   \<and> deal_value test_deal = Some (Finite 50000)
   \<and> deal_stage test_deal = Some (lit ''negotiation'')
   \<and> prepare_record plain_library (\<lambda>h c. Text []) (\<lambda>h r. NoResponse []) test_deal
         \<lparr>gen_calls = [], http_calls = []\<rparr>
       = (Inr (wrap_values
            [(lit ''name'', JStr (lit ''Enterprise Deal with TechCo'')),
             (lit ''description'',
                JStr (lit ''Company: TechCo'' @ [10] @ lit ''Q1 2024 target''))]),
          \<lparr>gen_calls = [], http_calls = []\<rparr>)"
proof -
  have d: "deal_desc_parts test_deal = [lit ''Company: TechCo'', lit ''Q1 2024 target'']"
    by (simp add: deal_desc_parts_def test_deal_def lit_def)
  have k: "object_type test_deal = lit ''deal''" "name test_deal = lit ''Enterprise Deal with TechCo''"
    "deal_value test_deal = Some (Finite 50000)"
    "deal_stage test_deal = Some (lit ''negotiation'')"
    by (simp_all add: test_deal_def)
  show ?thesis
    using deal_payload_lacks_value_and_stage
            [where lead = test_deal and M = "\<lambda>h c. Text []" and C = "\<lambda>h r. NoResponse []"
               and tr = "\<lparr>gen_calls = [], http_calls = []\<rparr>"]
    by (simp add: d k join_lines_def)
qed

section \<open>Properties of the creation of a person\<close>

lemma map_of_set_if:
  "map_of (set_if data k k' v a) key
     = (if truthy (dict_get data k) \<and> key = k' then Some v else map_of a key)"
  by (simp add: set_if_def map_of_update)

lemma dict_get_update:
  "dict_get (AList.update k v d) k' = (if k' = k then v else dict_get d k')"
  by (simp add: dict_get_def map_of_update)

lemma person_company_entry:
  "map_of (values_of (build_person_payload data)) (lit ''company'')
     = (if truthy (dict_get data (lit ''company_domain''))
        then Some (dict_get data (lit ''company_domain''))
        else if truthy (dict_get data (lit ''company_record_id''))
        then Some (JArr [JObj [(lit ''target_object'', JStr (lit ''companies'')),
                               (lit ''target_record_id'',
                                  dict_get data (lit ''company_record_id''))]])
        else None)"
  by (simp add: build_person_payload_def Let_def map_of_set_if map_of_update)

lemma search_company_website_has_dot:
  "fst (search_company_website L M c use_fallback hist) = Some d \<Longrightarrow> 46 \<in> set d"
  by (cases use_fallback)
     (auto simp: search_company_website_primary search_company_website_fallback
        website_of_text_iff split: gen_outcome.splits if_splits)

lemma create_or_get_company_eq:
  "create_or_get_company L M C c company_notes tr =
     ((case C (http_calls tr)
              (company_request c company_notes
                 (fst (search_company_website L M c False (gen_calls tr)))) of
         Created r \<Rightarrow> (Some r, fst (search_company_website L M c False (gen_calls tr)))
       | _ \<Rightarrow> (None, None)),
      \<lparr>gen_calls = snd (search_company_website L M c False (gen_calls tr)),
       http_calls = http_calls tr
          @ [company_request c company_notes
               (fst (search_company_website L M c False (gen_calls tr)))]\<rparr>)"
  by (simp add: create_or_get_company_def Let_def split: prod.splits http_outcome.splits)

lemma prepare_record_person:
  assumes "object_type lead = lit ''person''" "company lead = Some c" "c \<noteq> []"
  shows "prepare_record L M C lead tr =
     (case create_or_get_company L M C c (opt_str (notes lead)) tr of
        ((company_record, company_domain), tr1) \<Rightarrow>
          (case link_company company_record company_domain (lead_data_to_dict lead) of
             Inl e \<Rightarrow> (Inl e, tr1)
           | Inr data1 \<Rightarrow> (Inr (build_person_payload data1), tr1)))"
  using assms
  by (simp add: prepare_record_def Let_def dict_get_lead opt_str_def build_attio_payload_def
        split: prod.splits sum.splits)

lemma create_record_eq:
  "create_record L M C lead tr =
     (case fst (prepare_record L M C lead tr) of
        Inl e \<Rightarrow> (Inl e, snd (prepare_record L M C lead tr))
      | Inr body \<Rightarrow>
          (fst (post_record L C (object_type lead) body
                  (http_calls (snd (prepare_record L M C lead tr)))),
           (snd (prepare_record L M C lead tr))
             \<lparr>http_calls :=
                snd (post_record L C (object_type lead) body
                       (http_calls (snd (prepare_record L M C lead tr))))\<rparr>))"
  by (simp add: create_record_def split: prod.splits sum.splits)

lemma post_record_created:
  "C hist (record_request kind body) = Created r \<Longrightarrow> get_record_id r = Inr i \<Longrightarrow>
   post_record L C kind body hist = (Inr r, hist @ [record_request kind body])"
  by (simp add: post_record_def Let_def)



lemma link_company_created:
  assumes "truthy r" "get_record_id r = Inr rid" "\<forall>d. found = Some d \<longrightarrow> d \<noteq> []"
  shows "link_company (Some r) found data =
     Inr (if truthy rid then AList.update (lit ''company_record_id'') rid data
          else (case found of
                  Some d \<Rightarrow> AList.update (lit ''company_domain'') (JStr d) data
                | None \<Rightarrow> data))"
  using assms by (auto simp: link_company_def split: option.splits)

lemma prepare_record_company_created:
  assumes "object_type lead = lit ''person''" "company lead = Some c" "c \<noteq> []"
    and "C (http_calls tr)
           (company_request c (opt_str (notes lead))
              (fst (search_company_website L M c False (gen_calls tr)))) = Created r"
  shows "prepare_record L M C lead tr =
     (case link_company (Some r) (fst (search_company_website L M c False (gen_calls tr)))
             (lead_data_to_dict lead) of
        Inl e \<Rightarrow> Inl e
      | Inr data1 \<Rightarrow> Inr (build_person_payload data1),
      \<lparr>gen_calls = snd (search_company_website L M c False (gen_calls tr)),
       http_calls = http_calls tr
          @ [company_request c (opt_str (notes lead))
               (fst (search_company_website L M c False (gen_calls tr)))]\<rparr>)"
  using prepare_record_person [OF assms(1,2,3), of L M C tr] assms(4)
  by (simp add: create_or_get_company_eq split: sum.splits)

text \<open>
  Claim C9, as amended. For a person with a company set whose company call returned a
  record: when the record is not empty and its \<open>id\<close> can be read, the identifier of the
  record, if there is one, is kept in the dictionary and the domain is not; otherwise the
  domain is kept, when one was found. The person payload then has the reference to the
  identifier (a list of one \<open>target_object\<close>, \<open>target_record_id\<close> dictionary) as its
  company in the first case, the domain itself in the second, and no company entry when
  there is neither an identifier nor a domain. When the record returned is empty, the
  company counts as not created: nothing is kept and the payload has no company entry,
  whether or not a domain was found. That payload is the one \<open>create_record\<close> sends.
\<close>

theorem company_link_shape:
  fixes L :: library and M :: llm and C :: crm and lead :: LeadData and tr :: trace
    and c :: str and r :: json and rid :: json
  defines "found \<equiv> fst (search_company_website L M c False (gen_calls tr))"
      and "gen1 \<equiv> snd (search_company_website L M c False (gen_calls tr))"
  defines "creq \<equiv> company_request c (opt_str (notes lead)) found"
      and "data1 \<equiv>
             (if truthy rid
              then AList.update (lit ''company_record_id'') rid (lead_data_to_dict lead)
              else (case found of
                      Some d \<Rightarrow>
                        AList.update (lit ''company_domain'') (JStr d) (lead_data_to_dict lead)
                    | None \<Rightarrow> lead_data_to_dict lead))"
  assumes "object_type lead = lit ''person''"
      and "company lead = Some c" and "c \<noteq> []"
      and "C (http_calls tr) creq = Created r"
  shows "(truthy r \<and> get_record_id r = Inr rid \<longrightarrow>
            link_company (Some r) found (lead_data_to_dict lead) = Inr data1
            \<and> prepare_record L M C lead tr
                = (Inr (build_person_payload data1),
                   \<lparr>gen_calls = gen1, http_calls = http_calls tr @ [creq]\<rparr>)
            \<and> map_of (values_of (build_person_payload data1)) (lit ''company'')
                = (if truthy rid
                   then Some (JArr [JObj [(lit ''target_object'', JStr (lit ''companies'')),
                                          (lit ''target_record_id'', rid)]])
                   else (case found of Some d \<Rightarrow> Some (JStr d) | None \<Rightarrow> None))
            \<and> create_record L M C lead tr
                = (fst (post_record L C (lit ''person'') (build_person_payload data1)
                          (http_calls tr @ [creq])),
                   \<lparr>gen_calls = gen1,
                    http_calls = snd (post_record L C (lit ''person'')
                                        (build_person_payload data1)
                                        (http_calls tr @ [creq]))\<rparr>))
         \<and> (\<not> truthy r \<longrightarrow>
            prepare_record L M C lead tr
              = (Inr (build_person_payload (lead_data_to_dict lead)),
                 \<lparr>gen_calls = gen1, http_calls = http_calls tr @ [creq]\<rparr>)
            \<and> map_of (values_of (build_person_payload (lead_data_to_dict lead)))
                 (lit ''company'') = None)"
proof -
  have ne: "\<forall>d. found = Some d \<longrightarrow> d \<noteq> []"
    using search_company_website_has_dot [of L M c False "gen_calls tr"]
    by (auto simp: found_def)
  have pr: "prepare_record L M C lead tr =
     (case link_company (Some r) found (lead_data_to_dict lead) of
        Inl e \<Rightarrow> Inl e
      | Inr data1 \<Rightarrow> Inr (build_person_payload data1),
      \<lparr>gen_calls = gen1, http_calls = http_calls tr @ [creq]\<rparr>)"
    using prepare_record_company_created
            [where L = L and M = M and C = C and lead = lead and tr = tr and c = c and r = r]
          assms(5,6,7,8)
    by (simp add: creq_def found_def gen1_def)
  have first: "link_company (Some r) found (lead_data_to_dict lead) = Inr data1
            \<and> prepare_record L M C lead tr
                = (Inr (build_person_payload data1),
                   \<lparr>gen_calls = gen1, http_calls = http_calls tr @ [creq]\<rparr>)
            \<and> map_of (values_of (build_person_payload data1)) (lit ''company'')
                = (if truthy rid
                   then Some (JArr [JObj [(lit ''target_object'', JStr (lit ''companies'')),
                                          (lit ''target_record_id'', rid)]])
                   else (case found of Some d \<Rightarrow> Some (JStr d) | None \<Rightarrow> None))
            \<and> create_record L M C lead tr
                = (fst (post_record L C (lit ''person'') (build_person_payload data1)
                          (http_calls tr @ [creq])),
                   \<lparr>gen_calls = gen1,
                    http_calls = snd (post_record L C (lit ''person'')
                                        (build_person_payload data1)
                                        (http_calls tr @ [creq]))\<rparr>)"
    if t: "truthy r" and g: "get_record_id r = Inr rid"
  proof -
    have l: "link_company (Some r) found (lead_data_to_dict lead) = Inr data1"
      unfolding data1_def by (rule link_company_created [OF t g ne])
    have p: "prepare_record L M C lead tr
             = (Inr (build_person_payload data1),
                \<lparr>gen_calls = gen1, http_calls = http_calls tr @ [creq]\<rparr>)"
      using pr by (simp add: l)
    have v: "map_of (values_of (build_person_payload data1)) (lit ''company'')
             = (if truthy rid
                then Some (JArr [JObj [(lit ''target_object'', JStr (lit ''companies'')),
                                       (lit ''target_record_id'', rid)]])
                else (case found of Some d \<Rightarrow> Some (JStr d) | None \<Rightarrow> None))"
      using ne
      by (cases found)
         (simp_all add: data1_def person_company_entry dict_get_update dict_get_lead)
    have cr: "create_record L M C lead tr
             = (fst (post_record L C (lit ''person'') (build_person_payload data1)
                       (http_calls tr @ [creq])),
                \<lparr>gen_calls = gen1,
                 http_calls = snd (post_record L C (lit ''person'') (build_person_payload data1)
                                     (http_calls tr @ [creq]))\<rparr>)"
      by (simp add: create_record_eq p assms(5))
    show ?thesis using l p v cr by blast
  qed
  have second: "prepare_record L M C lead tr
              = (Inr (build_person_payload (lead_data_to_dict lead)),
                 \<lparr>gen_calls = gen1, http_calls = http_calls tr @ [creq]\<rparr>)
            \<and> map_of (values_of (build_person_payload (lead_data_to_dict lead)))
                 (lit ''company'') = None"
    if f: "\<not> truthy r"
    using pr f by (simp add: link_company_def person_company_entry dict_get_lead)
  show ?thesis using first second by blast
qed

theorem company_link_shape_witness:
  "object_type test_person = lit ''person''
   \<and> company test_person = Some (lit ''Example Corp'')
   \<and> lit ''Example Corp'' \<noteq> []
   \<and> truthy (JObj [(lit ''id'', JObj [(lit ''record_id'', JStr (lit ''c1''))])])
   \<and> get_record_id (JObj [(lit ''id'', JObj [(lit ''record_id'', JStr (lit ''c1''))])])
       = Inr (JStr (lit ''c1''))
   \<and> truthy (JObj [(lit ''data'', JObj [])])
   \<and> get_record_id (JObj [(lit ''data'', JObj [])]) = Inr JNull
   \<and> \<not> truthy (JObj [])
   \<and> fst (search_company_website plain_library (\<lambda>h c. Text (lit ''Example.com''))
          (lit ''Example Corp'') False []) = Some (lit ''example.com'')
   \<and> (case fst (prepare_record plain_library (\<lambda>h c. Text (lit ''Example.com''))
                  (\<lambda>h q. Created (JObj [(lit ''id'', JObj [(lit ''record_id'', JStr (lit ''c1''))])]))
                  test_person \<lparr>gen_calls = [], http_calls = []\<rparr>) of
         Inr b \<Rightarrow> map_of (values_of b) (lit ''company'')
       | Inl e \<Rightarrow> None)
       = Some (JArr [JObj [(lit ''target_object'', JStr (lit ''companies'')),
                           (lit ''target_record_id'', JStr (lit ''c1''))]])
   \<and> (case fst (prepare_record plain_library (\<lambda>h c. Text (lit ''Example.com''))
                  (\<lambda>h q. Created (JObj [(lit ''data'', JObj [])]))
                  test_person \<lparr>gen_calls = [], http_calls = []\<rparr>) of
         Inr b \<Rightarrow> map_of (values_of b) (lit ''company'')
       | Inl e \<Rightarrow> None)
       = Some (JStr (lit ''example.com''))
   \<and> fst (prepare_record plain_library (\<lambda>h c. Text (lit ''NONE''))
            (\<lambda>h q. Created (JObj [])) test_person \<lparr>gen_calls = [], http_calls = []\<rparr>)
       = Inr (build_person_payload (lead_data_to_dict test_person))"
proof -
  have k: "object_type test_person = lit ''person''"
    "company test_person = Some (lit ''Example Corp'')" "lit ''Example Corp'' \<noteq> []"
    by (simp_all add: test_person_def)
  have t: "truthy (JObj [(lit ''id'', JObj [(lit ''record_id'', JStr (lit ''c1''))])])"
    "truthy (JObj [(lit ''data'', JObj [])])" "\<not> truthy (JObj [])"
    by simp_all
  have g1: "get_record_id (JObj [(lit ''id'', JObj [(lit ''record_id'', JStr (lit ''c1''))])])
       = Inr (JStr (lit ''c1''))"
    by (simp add: get_record_id_def dict_get_def)
  have g2: "get_record_id (JObj [(lit ''data'', JObj [])]) = Inr JNull"
    by (simp add: get_record_id_def dict_get_def)
  have w: "website_of_text plain_library (lit ''Example.com'') = Some (lit ''example.com'')"
    by code_simp
  have f: "fst (search_company_website plain_library (\<lambda>h c. Text (lit ''Example.com''))
          (lit ''Example Corp'') False []) = Some (lit ''example.com'')"
    by (simp add: search_company_website_primary w)
  note th1 = company_link_shape
      [where L = plain_library and lead = test_person and c = "lit ''Example Corp''"
         and M = "\<lambda>h c. Text (lit ''Example.com'')"
         and C = "\<lambda>h q. Created (JObj [(lit ''id'', JObj [(lit ''record_id'', JStr (lit ''c1''))])])"
         and tr = "\<lparr>gen_calls = [], http_calls = []\<rparr>"
         and r = "JObj [(lit ''id'', JObj [(lit ''record_id'', JStr (lit ''c1''))])]"
         and rid = "JStr (lit ''c1'')", OF k refl, THEN conjunct1, THEN mp, OF conjI [OF t(1) g1]]
  note th2 = company_link_shape
      [where L = plain_library and lead = test_person and c = "lit ''Example Corp''"
         and M = "\<lambda>h c. Text (lit ''Example.com'')"
         and C = "\<lambda>h q. Created (JObj [(lit ''data'', JObj [])])"
         and tr = "\<lparr>gen_calls = [], http_calls = []\<rparr>"
         and r = "JObj [(lit ''data'', JObj [])]"
         and rid = JNull, OF k refl, THEN conjunct1, THEN mp, OF conjI [OF t(2) g2]]
  note th3 = company_link_shape
      [where L = plain_library and lead = test_person and c = "lit ''Example Corp''"
         and M = "\<lambda>h c. Text (lit ''NONE'')"
         and C = "\<lambda>h q. Created (JObj [])"
         and tr = "\<lparr>gen_calls = [], http_calls = []\<rparr>"
         and r = "JObj []", OF k refl, THEN conjunct2, THEN mp, OF t(3)]
  have r1: "(case fst (prepare_record plain_library (\<lambda>h c. Text (lit ''Example.com''))
                  (\<lambda>h q. Created (JObj [(lit ''id'', JObj [(lit ''record_id'', JStr (lit ''c1''))])]))
                  test_person \<lparr>gen_calls = [], http_calls = []\<rparr>) of
         Inr b \<Rightarrow> map_of (values_of b) (lit ''company'')
       | Inl e \<Rightarrow> None)
       = Some (JArr [JObj [(lit ''target_object'', JStr (lit ''companies'')),
                           (lit ''target_record_id'', JStr (lit ''c1''))]])"
    using th1 [THEN conjunct2, THEN conjunct2, THEN conjunct1]
    by (simp add: th1 [THEN conjunct2, THEN conjunct1])
  have r2: "(case fst (prepare_record plain_library (\<lambda>h c. Text (lit ''Example.com''))
                  (\<lambda>h q. Created (JObj [(lit ''data'', JObj [])]))
                  test_person \<lparr>gen_calls = [], http_calls = []\<rparr>) of
         Inr b \<Rightarrow> map_of (values_of b) (lit ''company'')
       | Inl e \<Rightarrow> None)
       = Some (JStr (lit ''example.com''))"
    using th2 [THEN conjunct2, THEN conjunct2, THEN conjunct1] f
    by (simp add: th2 [THEN conjunct2, THEN conjunct1])
  have r3: "fst (prepare_record plain_library (\<lambda>h c. Text (lit ''NONE''))
            (\<lambda>h q. Created (JObj [])) test_person \<lparr>gen_calls = [], http_calls = []\<rparr>)
       = Inr (build_person_payload (lead_data_to_dict test_person))"
    by (simp add: th3 [THEN conjunct1])
  show ?thesis using k t g1 g2 f r1 r2 r3 by blast
qed

text \<open>
  The claim as the specification states it fails: the company call succeeds with an empty
  record and a domain was found, yet the domain is not carried into the person payload.
\<close>

theorem company_link_counterexample:
  "company test_person = Some (lit ''Example Corp'')
   \<and> fst (search_company_website plain_library (\<lambda>h c. Text (lit ''Example.com''))
          (lit ''Example Corp'') False []) = Some (lit ''example.com'')
   \<and> prepare_record plain_library (\<lambda>h c. Text (lit ''Example.com''))
        (\<lambda>h q. Created (JObj [])) test_person \<lparr>gen_calls = [], http_calls = []\<rparr>
      = (Inr (build_person_payload (lead_data_to_dict test_person)),
         \<lparr>gen_calls = [website_call False (lit ''Example Corp'')],
          http_calls = [company_request (lit ''Example Corp'')
                          (JStr (lit ''Met at tech conference'')) (Some (lit ''example.com''))]\<rparr>)
   \<and> map_of (values_of (build_person_payload (lead_data_to_dict test_person)))
        (lit ''company'') = None"
proof -
  have k: "object_type test_person = lit ''person''"
    "company test_person = Some (lit ''Example Corp'')" "lit ''Example Corp'' \<noteq> []"
    "notes test_person = Some (lit ''Met at tech conference'')"
    by (simp_all add: test_person_def)
  have w: "website_of_text plain_library (lit ''Example.com'') = Some (lit ''example.com'')"
    by code_simp
  have s: "search_company_website plain_library (\<lambda>h c. Text (lit ''Example.com''))
          (lit ''Example Corp'') False []
       = (Some (lit ''example.com''), [website_call False (lit ''Example Corp'')])"
    by (simp add: search_company_website_primary w)
  have p: "prepare_record plain_library (\<lambda>h c. Text (lit ''Example.com''))
        (\<lambda>h q. Created (JObj [])) test_person \<lparr>gen_calls = [], http_calls = []\<rparr>
      = (Inr (build_person_payload (lead_data_to_dict test_person)),
         \<lparr>gen_calls = [website_call False (lit ''Example Corp'')],
          http_calls = [company_request (lit ''Example Corp'')
                          (JStr (lit ''Met at tech conference'')) (Some (lit ''example.com''))]\<rparr>)"
    using prepare_record_company_created
            [where L = plain_library and lead = test_person and c = "lit ''Example Corp''"
               and M = "\<lambda>h c. Text (lit ''Example.com'')" and C = "\<lambda>h q. Created (JObj [])"
               and tr = "\<lparr>gen_calls = [], http_calls = []\<rparr>" and r = "JObj []",
             OF k(1,2,3) refl]
    by (simp add: s link_company_def k(4) opt_str_def)
  have v: "map_of (values_of (build_person_payload (lead_data_to_dict test_person)))
        (lit ''company'') = None"
    by (simp add: person_company_entry dict_get_lead)
  show ?thesis using k(2) s p v by simp
qed

section \<open>Properties of the repair of a missing attribute\<close>



















section \<open>Properties of the validation of a lead\<close>

lemma missing_required:
  assumes "map_of data k = None" and "k = lit ''object_type'' \<or> k = lit ''name''"
  shows "\<exists>bad. LeadData_validate L data = Inl bad \<and> k \<in> set bad"
proof -
  have r: "required_field (str_field L) data k = None"
    using assms(1) by (simp add: required_field_def)
  have "k \<in> set (filter (\<lambda>k. required_field (str_field L) data k = None)
                   [lit ''object_type'', lit ''name''])"
    using assms(2) r by (simp only: set_filter set_simps) blast
  then have m: "k \<in> set (invalid_fields L data)"
    unfolding invalid_fields_def by (simp only: set_append Un_iff simp_thms)
  then have "invalid_fields L data \<noteq> []" by (cases "invalid_fields L data") simp_all
  then have "LeadData_validate L data = Inl (invalid_fields L data)"
    by (simp only: LeadData_validate_def if_True simp_thms)
  with m show ?thesis by blast
qed

lemma validate_two_fields:
  "str_field L (JStr t) = Some t \<Longrightarrow> str_field L (JStr n) = Some n \<Longrightarrow>
   LeadData_validate L [(lit ''object_type'', JStr t), (lit ''name'', JStr n)] =
     Inr \<lparr>object_type = t, name = n, email = None, phone = None, company = None,
          job_title = None, location = None, linkedin_url = None, deal_value = None,
          deal_stage = None, notes = None\<rparr>"
  by (simp add: LeadData_validate_def invalid_fields_def required_field_def optional_field_def)

lemma process_lead_message_eq:
  "fst (call_gemini_api M message False hist) = Inr reply \<Longrightarrow>
   parse_gemini_response reply = Inr (JObj data) \<Longrightarrow>
   fst (process_lead_message L M message hist) =
     (case LeadData_validate L data of
        Inl bad \<Rightarrow> Inl (invalid_format (validation_text L bad))
      | Inr lead \<Rightarrow> Inr lead)"
  by (cases "call_gemini_api M message False hist")
     (simp add: process_lead_message_def split: sum.splits)

lemma create_record_invalid_type:
  "object_type lead \<notin> set valid_types \<Longrightarrow>
   create_record L M C lead tr = (Inl (invalid_object_type (object_type lead)), tr)"
  by (simp add: create_record_def prepare_record_def)

text \<open>
  Claim C4, as amended. The validation of a parsed result fails when \<open>name\<close> is
  missing, and when \<open>object_type\<close> is missing. It accepts every string as
  \<open>object_type\<close>: the field is declared \<open>str\<close>, so a record that comes out of a
  successful extraction can have a kind outside the four values. The four values are
  enforced by \<open>create_record\<close>, which raises \<open>AttioAPIError\<close> for any other kind before
  it makes a call.
\<close>

theorem lead_validation:
  "(map_of data (lit ''name'') = None \<longrightarrow>
      (\<exists>bad. LeadData_validate L data = Inl bad \<and> lit ''name'' \<in> set bad))
   \<and> (map_of data (lit ''object_type'') = None \<longrightarrow>
      (\<exists>bad. LeadData_validate L data = Inl bad \<and> lit ''object_type'' \<in> set bad))
   \<and> (str_field L (JStr t) = Some t \<and> str_field L (JStr n) = Some n \<longrightarrow>
      LeadData_validate L [(lit ''object_type'', JStr t), (lit ''name'', JStr n)] =
        Inr \<lparr>object_type = t, name = n, email = None, phone = None, company = None,
             job_title = None, location = None, linkedin_url = None, deal_value = None,
             deal_stage = None, notes = None\<rparr>)
   \<and> (fst (call_gemini_api M message False hist) = Inr reply
        \<and> parse_gemini_response reply = Inr (JObj data) \<longrightarrow>
      fst (process_lead_message L M message hist) =
        (case LeadData_validate L data of
           Inl bad \<Rightarrow> Inl (invalid_format (validation_text L bad))
         | Inr lead \<Rightarrow> Inr lead))
   \<and> (object_type lead \<notin> set valid_types \<longrightarrow>
      create_record L M C lead tr = (Inl (invalid_object_type (object_type lead)), tr))
   \<and> set valid_types = {lit ''person'', lit ''company'', lit ''deal'', lit ''user''}"
proof -
  have a: "map_of data (lit ''name'') = None \<longrightarrow>
      (\<exists>bad. LeadData_validate L data = Inl bad \<and> lit ''name'' \<in> set bad)"
    using missing_required [of data "lit ''name''" L] by blast
  have b: "map_of data (lit ''object_type'') = None \<longrightarrow>
      (\<exists>bad. LeadData_validate L data = Inl bad \<and> lit ''object_type'' \<in> set bad)"
    using missing_required [of data "lit ''object_type''" L] by blast
  have c: "str_field L (JStr t) = Some t \<and> str_field L (JStr n) = Some n \<longrightarrow>
      LeadData_validate L [(lit ''object_type'', JStr t), (lit ''name'', JStr n)] =
        Inr \<lparr>object_type = t, name = n, email = None, phone = None, company = None,
             job_title = None, location = None, linkedin_url = None, deal_value = None,
             deal_stage = None, notes = None\<rparr>"
    using validate_two_fields [of L t n] by blast
  have d: "fst (call_gemini_api M message False hist) = Inr reply
        \<and> parse_gemini_response reply = Inr (JObj data) \<longrightarrow>
      fst (process_lead_message L M message hist) =
        (case LeadData_validate L data of
           Inl bad \<Rightarrow> Inl (invalid_format (validation_text L bad))
         | Inr lead \<Rightarrow> Inr lead)"
    using process_lead_message_eq [of M message hist reply data L] by blast
  have e: "object_type lead \<notin> set valid_types \<longrightarrow>
      create_record L M C lead tr = (Inl (invalid_object_type (object_type lead)), tr)"
    using create_record_invalid_type [of lead L M C tr] by blast
  have f: "set valid_types = {lit ''person'', lit ''company'', lit ''deal'', lit ''user''}"
    by (simp add: valid_types_def)
  show ?thesis using a b c d e f by blast
qed

lemma robot_parse: "parse_gemini_response robot_response
   = Inr (JObj [(lit ''object_type'', JStr (lit ''robot'')), (lit ''name'', JStr (lit ''R2''))])"
  by code_simp

lemma robot_not_valid: "lit ''robot'' \<notin> set valid_types"
  by (simp add: valid_types_def)

lemma robot_call:
  "call_gemini_api (\<lambda>h c. Text robot_response) message False []
     = (Inr robot_response, [gemini_call False message])"
proof -
  have "robot_response \<noteq> []" by (simp add: robot_response_def)
  then show ?thesis by (simp add: call_gemini_api_primary gemini_attempt_def)
qed

theorem lead_validation_witness:
  "map_of [(lit ''object_type'', JStr (lit ''person''))] (lit ''name'') = None
   \<and> map_of [(lit ''name'', JStr (lit ''R2''))] (lit ''object_type'') = None
   \<and> str_field plain_library (JStr (lit ''robot'')) = Some (lit ''robot'')
   \<and> str_field plain_library (JStr (lit ''R2'')) = Some (lit ''R2'')
   \<and> object_type robot_lead \<notin> set valid_types
   \<and> LeadData_validate plain_library [(lit ''object_type'', JStr (lit ''person''))]
       = Inl [lit ''name'']
   \<and> LeadData_validate plain_library [(lit ''name'', JStr (lit ''R2''))]
       = Inl [lit ''object_type'']
   \<and> LeadData_validate plain_library
         [(lit ''object_type'', JStr (lit ''robot'')), (lit ''name'', JStr (lit ''R2''))]
       = Inr robot_lead
   \<and> create_record plain_library (\<lambda>h c. Text []) (\<lambda>h q. Created (JObj [])) robot_lead
         \<lparr>gen_calls = [], http_calls = []\<rparr>
       = (Inl (invalid_object_type (lit ''robot'')), \<lparr>gen_calls = [], http_calls = []\<rparr>)"
proof -
  have m: "map_of [(lit ''object_type'', JStr (lit ''person''))] (lit ''name'') = None"
    "map_of [(lit ''name'', JStr (lit ''R2''))] (lit ''object_type'') = None"
    by simp_all
  have s: "str_field plain_library (JStr (lit ''robot'')) = Some (lit ''robot'')"
    "str_field plain_library (JStr (lit ''R2'')) = Some (lit ''R2'')"
    by (simp_all add: plain_library_def)
  have o: "object_type robot_lead \<notin> set valid_types" "object_type robot_lead = lit ''robot''"
    by (simp_all add: robot_lead_def valid_types_def)
  have v1: "LeadData_validate plain_library [(lit ''object_type'', JStr (lit ''person''))]
       = Inl [lit ''name'']"
    by (simp add: LeadData_validate_def invalid_fields_def required_field_def
          optional_field_def plain_library_def)
  have v2: "LeadData_validate plain_library [(lit ''name'', JStr (lit ''R2''))]
       = Inl [lit ''object_type'']"
    by (simp add: LeadData_validate_def invalid_fields_def required_field_def
          optional_field_def plain_library_def)
  note th = lead_validation
      [where L = plain_library and t = "lit ''robot''" and n = "lit ''R2''"
         and lead = robot_lead and M = "\<lambda>h c. Text []" and C = "\<lambda>h q. Created (JObj [])"
         and tr = "\<lparr>gen_calls = [], http_calls = []\<rparr>"]
  show ?thesis
    using th [THEN conjunct2, THEN conjunct2, THEN conjunct1]
          th [THEN conjunct2, THEN conjunct2, THEN conjunct2, THEN conjunct2, THEN conjunct1]
          m s o v1 v2
    by (simp add: robot_lead_def)
qed

text \<open>
  The claim as the specification states it fails: the model answers with the kind
  \<open>robot\<close>, and the extraction succeeds with a record of that kind.
\<close>

theorem lead_validation_counterexample:
  "process_lead_message plain_library (\<lambda>h c. Text robot_response) (lit ''Met R2'') []
     = (Inr robot_lead, [gemini_call False (lit ''Met R2'')])
   \<and> object_type robot_lead = lit ''robot''
   \<and> lit ''robot'' \<notin> set valid_types"
proof -
  have v: "LeadData_validate plain_library
         [(lit ''object_type'', JStr (lit ''robot'')), (lit ''name'', JStr (lit ''R2''))]
       = Inr robot_lead"
    using validate_two_fields [of plain_library "lit ''robot''" "lit ''R2''"]
    by (simp add: plain_library_def robot_lead_def)
  have "process_lead_message plain_library (\<lambda>h c. Text robot_response) (lit ''Met R2'') []
     = (Inr robot_lead, [gemini_call False (lit ''Met R2'')])"
    by (simp add: process_lead_message_def robot_call robot_parse v)
  then show ?thesis using robot_not_valid by (simp add: robot_lead_def)
qed

end
